theory Spec2Isabelle
  imports Complex_Main
begin

section \<open>Strings and paths\<close>

text \<open>
  Python strings are modelled as \<^typ>\<open>string\<close>, each \<^typ>\<open>char\<close> read as one code
  point in the range U+0000..U+00FF. \<open>lower\<close> is \<^verbatim>\<open>str.lower\<close> on that range: the
  letters A..Z and the Latin-1 capitals U+00C0..U+00DE (but the multiplication sign
  U+00D7) move up by 32, everything else is kept.
\<close>

definition lower_char :: "char \<Rightarrow> char" where
  "lower_char c =
     (let n = (of_char c :: nat) in
      if (65 \<le> n \<and> n \<le> 90) \<or> (192 \<le> n \<and> n \<le> 222 \<and> n \<noteq> 215)
      then char_of (n + 32) else c)"

definition lower :: "string \<Rightarrow> string" where
  "lower s = map lower_char s"

text \<open>\<^verbatim>\<open>needle in hay\<close> on strings: \<open>needle\<close> occurs as a contiguous run.\<close>

fun startswith :: "string \<Rightarrow> string \<Rightarrow> bool" where
  "startswith s [] = True"
| "startswith [] (c # cs) = False"
| "startswith (d # ds) (c # cs) = (d = c \<and> startswith ds cs)"

fun str_in :: "string \<Rightarrow> string \<Rightarrow> bool" where
  "str_in needle [] = (needle = [])"
| "str_in needle (d # ds) = (startswith (d # ds) needle \<or> str_in needle ds)"

text \<open>
  The reading of "contains the word in any letter case": some contiguous run of the
  name spells the (lower-case) word when each of its letters may also stand as the
  ASCII capital.
\<close>

definition ascii_upper :: "char \<Rightarrow> char" where
  "ascii_upper c =
     (let n = (of_char c :: nat) in
      if 97 \<le> n \<and> n \<le> 122 then char_of (n - 32) else c)"

fun spells_any_case :: "string \<Rightarrow> string \<Rightarrow> bool" where
  "spells_any_case s [] = True"
| "spells_any_case [] (c # cs) = False"
| "spells_any_case (d # ds) (c # cs) =
     ((d = c \<or> d = ascii_upper c) \<and> spells_any_case ds cs)"

fun contains_any_case :: "string \<Rightarrow> string \<Rightarrow> bool" where
  "contains_any_case word [] = (word = [])"
| "contains_any_case word (d # ds) =
     (spells_any_case (d # ds) word \<or> contains_any_case word ds)"

text \<open>\<^verbatim>\<open>os.path.join\<close> of two components (\<^verbatim>\<open>posixpath\<close>).\<close>

definition path_join :: "string \<Rightarrow> string \<Rightarrow> string" where
  "path_join a b =
     (if startswith b ''/'' then b
      else if a = [] \<or> last a = CHR ''/'' then a @ b
      else a @ ''/'' @ b)"

definition PROJECT_ROOT :: string where
  "PROJECT_ROOT = ''/Users/macbookair/Downloads/2ndAssessment/cevi_tech_assessment''"

definition MODELS_DIR :: string where
  "MODELS_DIR = path_join PROJECT_ROOT ''models''"

definition TEXTURES_DIR :: string where
  "TEXTURES_DIR = path_join PROJECT_ROOT ''textures''"

definition OUTPUT_DIR :: string where
  "OUTPUT_DIR = path_join PROJECT_ROOT ''output''"

section \<open>Data model\<close>

text \<open>
  The script drives a host application through its scripting interface. The model keeps
  the part of the host's data the script reads or writes. A field of option type that is
  \<open>None\<close> (and an input socket with no entry in \<open>default_value\<close>) is one the
  script has not assigned: it holds whatever the host gave it.
\<close>

type_synonym vec3 = "real \<times> real \<times> real"

datatype socket = Name string | Idx nat

record node =
  bl_idname :: string
  node_image :: "nat option"
  node_location :: "(int \<times> int) option"
  vector_type :: "string option"
  node_color :: "(real \<times> real \<times> real \<times> real) option"
  default_value :: "socket \<rightharpoonup> real"

record link =
  from_node :: nat
  from_socket :: socket
  to_node :: nat
  to_socket :: socket

text \<open>A node tree: nodes in creation order (a node is known by its position), and links.\<close>

record node_tree =
  nodes :: "node list"
  links :: "link list"

text \<open>An image datablock; \<open>images\<close> of the state is \<^verbatim>\<open>bpy.data.images\<close>, and an image is
  known by its position there, so that two nodes may share one image.\<close>

record image =
  filepath :: string
  colorspace :: string

record material =
  mat_name :: string
  use_nodes :: bool
  mat_node_tree :: node_tree

text \<open>A scene object. \<open>polygons\<close> holds one smooth-shading flag per polygon of the
  object's mesh; a material slot with no material is \<open>None\<close>.\<close>

record object =
  obj_name :: string
  obj_type :: string
  obj_scale :: vec3
  rotation_euler :: vec3
  location :: vec3
  selected :: bool
  polygons :: "bool list"
  use_auto_smooth :: bool
  auto_smooth_angle :: real
  material_slots :: "material option list"

datatype error =
    RuntimeError string
  | TypeError string
  | URLError string
  | OSError string

text \<open>The lines the script prints, by their format string.\<close>

datatype line =
    Downloading_HDRI string
  | Warning_HDRI string
  | Warning_texture string
  | Processing string
  | Exported string
  | Please_download string string string
  | Generated_viewer string
  | Error_generating_viewer string
  | Generated_documentation string
  | Created_package

text \<open>The calls the script makes on the host, in the order it makes them; a call on the
  active object carries that object's name.\<close>

datatype event =
    Clear_scene
  | Import_gltf string
  | Set_active string
  | Select_set string bool
  | Set_scale string
  | Set_rotation_euler string
  | Transform_apply string
  | Origin_set string
  | Set_location string
  | Process_materials string
  | Shade_smooth string
  | Set_auto_smooth string
  | Mode_set string string
  | Mesh_select_all string
  | Normals_make_consistent string
  | Camera_add
  | Set_scene_camera
  | Setup_lighting
  | Render_settings
  | Export_gltf string

record state =
  files :: "string set"
  images :: "image list"
  objects :: "object list"
  world :: "node_tree option"
  stdout :: "line list"
  trace :: "event list"

text \<open>
  What the script cannot decide and the host or the machine does: whether an image file
  decodes, the colour space a fresh image gets, which colour-space names the host's
  configuration knows, whether the download, the import, the export or a file write
  succeeds, what an asset file holds, and where an object's bounding box is centred.
\<close>

record host =
  image_loadable :: "string \<Rightarrow> bool"
  default_colorspace :: "string \<Rightarrow> string"
  colorspace_ok :: "string \<Rightarrow> bool"
  url_retrievable :: "string \<Rightarrow> bool"
  gltf_objects :: "string \<Rightarrow> object list option"
  gltf_exportable :: "string \<Rightarrow> bool"
  file_writable :: "string \<Rightarrow> bool"
  bounds_center :: "object \<Rightarrow> vec3"

section \<open>Effects and exceptions\<close>

text \<open>
  A statement of the script runs on the state and either returns a value or raises; the
  state it leaves is kept in both cases, as Python keeps what was mutated before a
  raise.
\<close>

type_synonym 'a run = "state \<Rightarrow> (error + 'a) \<times> state"

definition ret :: "'a \<Rightarrow> 'a run" where
  "ret x = (\<lambda>s. (Inr x, s))"

definition raise :: "error \<Rightarrow> 'a run" where
  "raise e = (\<lambda>s. (Inl e, s))"

definition seq :: "'a run \<Rightarrow> ('a \<Rightarrow> 'b run) \<Rightarrow> 'b run" where
  "seq m f = (\<lambda>s. case m s of (Inl e, s') \<Rightarrow> (Inl e, s') | (Inr x, s') \<Rightarrow> f x s')"

text \<open>\<^verbatim>\<open>try: body  except: handler\<close> (a bare \<^verbatim>\<open>except\<close> and \<^verbatim>\<open>except Exception\<close> alike:
  every error of the model is caught).\<close>

definition try_except :: "'a run \<Rightarrow> 'a run \<Rightarrow> 'a run" where
  "try_except body handler =
     (\<lambda>s. case body s of (Inl e, s') \<Rightarrow> handler s' | (Inr x, s') \<Rightarrow> (Inr x, s'))"

definition print_line :: "line \<Rightarrow> unit run" where
  "print_line l = (\<lambda>s. (Inr (), s\<lparr>stdout := stdout s @ [l]\<rparr>))"

definition emit :: "event \<Rightarrow> unit run" where
  "emit e = (\<lambda>s. (Inr (), s\<lparr>trace := trace s @ [e]\<rparr>))"

section \<open>Images\<close>

fun find_index :: "('a \<Rightarrow> bool) \<Rightarrow> 'a list \<Rightarrow> nat option" where
  "find_index P [] = None"
| "find_index P (x # xs) =
     (if P x then Some 0 else map_option Suc (find_index P xs))"

text \<open>
  \<^verbatim>\<open>bpy.data.images.load(path, check_existing=...)\<close>: with \<open>check_existing\<close> an image
  already loaded from that path is returned as it is; otherwise the file is read into a
  new image, and the call raises when the file is missing or does not decode.
\<close>

definition images_load :: "host \<Rightarrow> string \<Rightarrow> bool \<Rightarrow> nat run" where
  "images_load h path check_existing =
     (\<lambda>s. case (if check_existing then find_index (\<lambda>i. filepath i = path) (images s)
                 else None) of
            Some k \<Rightarrow> (Inr k, s)
          | None \<Rightarrow>
              if path \<in> files s \<and> image_loadable h path
              then (Inr (length (images s)),
                    s\<lparr>images := images s @
                       [\<lparr>filepath = path, colorspace = default_colorspace h path\<rparr>]\<rparr>)
              else (Inl (RuntimeError ''bpy.data.images.load''), s))"

text \<open>\<^verbatim>\<open>img.colorspace_settings.name = cs\<close>: the host refuses a name it does not know.\<close>

definition set_colorspace :: "host \<Rightarrow> nat \<Rightarrow> string \<Rightarrow> unit run" where
  "set_colorspace h img cs =
     (\<lambda>s. if colorspace_ok h cs
          then (Inr (), s\<lparr>images := (images s)[img := (images s ! img)\<lparr>colorspace := cs\<rparr>]\<rparr>)
          else (Inl (TypeError cs), s))"

text \<open>The file a texture name stands for: \<^verbatim>\<open>os.path.join(TEXTURES_DIR, f"{texture_name}.png")\<close>.\<close>

definition texture_file :: "string \<Rightarrow> string" where
  "texture_file texture_name = path_join TEXTURES_DIR (texture_name @ ''.png'')"

definition load_texture :: "host \<Rightarrow> string \<Rightarrow> string \<Rightarrow> nat option run" where
  "load_texture h texture_name color_space =
     (\<lambda>s. let texture_path = texture_file texture_name in
          if texture_path \<in> files s
          then try_except
                 (seq (images_load h texture_path True) (\<lambda>img.
                  seq (set_colorspace h img
                         (if color_space = ''sRGB'' then ''sRGB'' else ''Non-Color'')) (\<lambda>_.
                  ret (Some img))))
                 (seq (print_line (Warning_texture texture_name)) (\<lambda>_. ret None))
                 s
          else ret None s)"

section \<open>Node trees\<close>

text \<open>\<^verbatim>\<open>nodes.new(ty)\<close>: a node of that type, nothing assigned yet, added last.\<close>

definition new_node :: "string \<Rightarrow> node" where
  "new_node ty =
     \<lparr>bl_idname = ty, node_image = None, node_location = None, vector_type = None,
      node_color = None, default_value = Map.empty\<rparr>"

definition nodes_new :: "string \<Rightarrow> node_tree \<Rightarrow> nat \<times> node_tree" where
  "nodes_new ty t = (length (nodes t), t\<lparr>nodes := nodes t @ [new_node ty]\<rparr>)"

definition links_new :: "nat \<Rightarrow> socket \<Rightarrow> nat \<Rightarrow> socket \<Rightarrow> node_tree \<Rightarrow> node_tree" where
  "links_new a out b inp t =
     t\<lparr>links := links t @
        [\<lparr>from_node = a, from_socket = out, to_node = b, to_socket = inp\<rparr>]\<rparr>"

definition update_node :: "nat \<Rightarrow> (node \<Rightarrow> node) \<Rightarrow> node_tree \<Rightarrow> node_tree" where
  "update_node n f t = t\<lparr>nodes := (nodes t)[n := f (nodes t ! n)]\<rparr>"

definition set_default_value :: "nat \<Rightarrow> socket \<Rightarrow> real \<Rightarrow> node_tree \<Rightarrow> node_tree" where
  "set_default_value n inp v =
     update_node n (\<lambda>nd. nd\<lparr>default_value := (default_value nd)(inp \<mapsto> v)\<rparr>)"

definition set_location :: "nat \<Rightarrow> int \<times> int \<Rightarrow> node_tree \<Rightarrow> node_tree" where
  "set_location n xy = update_node n (\<lambda>nd. nd\<lparr>node_location := Some xy\<rparr>)"

definition set_vector_type :: "nat \<Rightarrow> string \<Rightarrow> node_tree \<Rightarrow> node_tree" where
  "set_vector_type n v = update_node n (\<lambda>nd. nd\<lparr>vector_type := Some v\<rparr>)"

definition set_image :: "nat \<Rightarrow> nat option \<Rightarrow> node_tree \<Rightarrow> node_tree" where
  "set_image n img = update_node n (\<lambda>nd. nd\<lparr>node_image := img\<rparr>)"

definition set_color :: "nat \<Rightarrow> real \<times> real \<times> real \<times> real \<Rightarrow> node_tree \<Rightarrow> node_tree" where
  "set_color n c = update_node n (\<lambda>nd. nd\<lparr>node_color := Some c\<rparr>)"

definition empty_tree :: node_tree where
  "empty_tree = \<lparr>nodes = [], links = []\<rparr>"

section \<open>Material processing\<close>

text \<open>
  \<open>create_texture_node\<close> returns the new node (or \<open>None\<close>) and the tree it was added
  to. Its parameter \<open>name\<close> is not used by the source either.
\<close>

definition create_texture_node ::
  "host \<Rightarrow> node_tree \<Rightarrow> nat option \<Rightarrow> string \<Rightarrow> int \<times> int \<Rightarrow> string
     \<Rightarrow> (nat option \<times> node_tree) run" where
  "create_texture_node h t img name loc color_space =
     (case img of
        None \<Rightarrow> ret (None, t)
      | Some i \<Rightarrow>
          (let (tex_node, t1) = nodes_new ''ShaderNodeTexImage'' t;
               t2 = set_image tex_node (Some i) t1;
               t3 = set_location tex_node loc t2
           in seq (set_colorspace h i
                     (if color_space = ''sRGB'' then ''sRGB'' else ''Non-Color'')) (\<lambda>_.
              ret (Some tex_node, t3))))"

text \<open>The four blocks "add ... if available" of the loop body, in the source's order.\<close>

definition add_base_color :: "host \<Rightarrow> nat option \<Rightarrow> nat \<Rightarrow> nat \<Rightarrow> node_tree \<Rightarrow> node_tree run" where
  "add_base_color h base_color_map mapping bsdf t =
     (if base_color_map \<noteq> None
      then seq (create_texture_node h t base_color_map ''Base Color'' (-600, 300) ''sRGB'')
             (\<lambda>(tex_color, t1).
                case tex_color of
                  None \<Rightarrow> ret t1
                | Some tc \<Rightarrow>
                    ret (links_new tc (Name ''Color'') bsdf (Name ''Base Color'')
                          (links_new mapping (Name ''Vector'') tc (Name ''Vector'') t1)))
      else ret t)"

definition add_normal_map :: "host \<Rightarrow> nat option \<Rightarrow> nat \<Rightarrow> nat \<Rightarrow> node_tree \<Rightarrow> node_tree run" where
  "add_normal_map h normal_map mapping bsdf t =
     (if normal_map \<noteq> None
      then seq (create_texture_node h t normal_map ''Normal'' (-600, 0) ''Non-Color'')
             (\<lambda>(tex_normal, t1).
                case tex_normal of
                  None \<Rightarrow> ret t1
                | Some tn \<Rightarrow>
                    (let (normal_map_node, t2) = nodes_new ''ShaderNodeNormalMap'' t1;
                         t3 = set_location normal_map_node (-200, 0) t2;
                         t4 = links_new mapping (Name ''Vector'') tn (Name ''Vector'') t3;
                         t5 = links_new tn (Name ''Color'') normal_map_node (Name ''Color'') t4
                     in ret (links_new normal_map_node (Name ''Normal'') bsdf (Name ''Normal'') t5)))
      else ret t)"

definition add_roughness_map :: "host \<Rightarrow> nat option \<Rightarrow> nat \<Rightarrow> nat \<Rightarrow> node_tree \<Rightarrow> node_tree run" where
  "add_roughness_map h roughness_map mapping bsdf t =
     (if roughness_map \<noteq> None
      then seq (create_texture_node h t roughness_map ''Roughness'' (-600, -200) ''Non-Color'')
             (\<lambda>(tex_roughness, t1).
                case tex_roughness of
                  None \<Rightarrow> ret t1
                | Some tr \<Rightarrow>
                    ret (links_new tr (Name ''Color'') bsdf (Name ''Roughness'')
                          (links_new mapping (Name ''Vector'') tr (Name ''Vector'') t1)))
      else ret t)"

definition add_metallic_map :: "host \<Rightarrow> nat option \<Rightarrow> nat \<Rightarrow> nat \<Rightarrow> node_tree \<Rightarrow> node_tree run" where
  "add_metallic_map h metallic_map mapping bsdf t =
     (if metallic_map \<noteq> None
      then seq (create_texture_node h t metallic_map ''Metallic'' (-600, -400) ''Non-Color'')
             (\<lambda>(tex_metallic, t1).
                case tex_metallic of
                  None \<Rightarrow> ret t1
                | Some tm \<Rightarrow>
                    ret (links_new tm (Name ''Color'') bsdf (Name ''Metallic'')
                          (links_new mapping (Name ''Vector'') tm (Name ''Vector'') t1)))
      else ret t)"

text \<open>"Adjust material settings based on material type": the chain of tests on the
  lower-cased name that ends the loop body. Number literals are the decimals written.\<close>

definition adjust_material_settings :: "nat \<Rightarrow> string \<Rightarrow> node_tree \<Rightarrow> node_tree" where
  "adjust_material_settings bsdf name t =
     (if str_in ''gold'' name
      then set_default_value bsdf (Name ''Roughness'') 0.2
             (set_default_value bsdf (Name ''Metallic'') 1.0 t)
      else if str_in ''silver'' name \<or> str_in ''metal'' name
      then set_default_value bsdf (Name ''Roughness'') 0.1
             (set_default_value bsdf (Name ''Metallic'') 1.0 t)
      else if str_in ''diamond'' name \<or> str_in ''gem'' name
      then set_default_value bsdf (Name ''IOR'') 2.4
             (set_default_value bsdf (Name ''Transmission'') 1.0
               (set_default_value bsdf (Name ''Roughness'') 0.02
                 (set_default_value bsdf (Name ''Metallic'') 0.0 t)))
      else t)"

text \<open>
  The body of the loop over the material slots, for a slot that holds a material. The
  material's old nodes are removed (and with them their links) before the new tree is
  built.
\<close>

definition process_material ::
  "host \<Rightarrow> nat option \<Rightarrow> nat option \<Rightarrow> nat option \<Rightarrow> nat option \<Rightarrow> material \<Rightarrow> material run" where
  "process_material h base_color_map normal_map roughness_map metallic_map mat =
     (let (bsdf, t1) = nodes_new ''ShaderNodeBsdfPrincipled'' empty_tree;
          (output, t2) = nodes_new ''ShaderNodeOutputMaterial'' t1;
          t3 = set_location output (400, 0) t2;
          t4 = set_default_value bsdf (Name ''Specular'') 0.5 t3;
          t5 = set_default_value bsdf (Name ''Roughness'') 0.7 t4;
          t6 = set_default_value bsdf (Name ''Metallic'') 0.0 t5;
          name = lower (mat_name mat);
          (tex_coord, t7) = nodes_new ''ShaderNodeTexCoord'' t6;
          (mapping, t8) = nodes_new ''ShaderNodeMapping'' t7;
          t9 = set_vector_type mapping ''TEXTURE'' t8;
          t10 = links_new tex_coord (Name ''UV'') mapping (Name ''Vector'') t9
      in seq (add_base_color h base_color_map mapping bsdf t10) (\<lambda>t11.
         seq (add_normal_map h normal_map mapping bsdf t11) (\<lambda>t12.
         seq (add_roughness_map h roughness_map mapping bsdf t12) (\<lambda>t13.
         seq (add_metallic_map h metallic_map mapping bsdf t13) (\<lambda>t14.
         ret (mat\<lparr>use_nodes := True,
                   mat_node_tree :=
                     adjust_material_settings bsdf name
                       (links_new bsdf (Name ''BSDF'') output (Name ''Surface'') t14)\<rparr>))))))"

text \<open>The loop over the slots: a slot with no material is passed over.\<close>

fun process_slots ::
  "host \<Rightarrow> nat option \<Rightarrow> nat option \<Rightarrow> nat option \<Rightarrow> nat option \<Rightarrow> material option list
     \<Rightarrow> material option list run" where
  "process_slots h b n r m [] = ret []"
| "process_slots h b n r m (slot # slots) =
     (case slot of
        None \<Rightarrow> seq (process_slots h b n r m slots) (\<lambda>rest. ret (None # rest))
      | Some mat \<Rightarrow>
          seq (process_material h b n r m mat) (\<lambda>mat'.
          seq (process_slots h b n r m slots) (\<lambda>rest.
          ret (Some mat' # rest))))"

text \<open>\<open>process_materials\<close> mutates the object it is given; the model returns the object
  as it is afterwards.\<close>

definition process_materials :: "host \<Rightarrow> object \<Rightarrow> object run" where
  "process_materials h obj =
     (if material_slots obj = [] then ret obj
      else seq (load_texture h ''albedo'' ''sRGB'') (\<lambda>base_color_map.
           seq (load_texture h ''normal'' ''Non-Color'') (\<lambda>normal_map.
           seq (load_texture h ''roughness'' ''Non-Color'') (\<lambda>roughness_map.
           seq (load_texture h ''metallic'' ''Non-Color'') (\<lambda>metallic_map.
           seq (process_slots h base_color_map normal_map roughness_map metallic_map
                  (material_slots obj)) (\<lambda>slots.
           ret (obj\<lparr>material_slots := slots\<rparr>)))))))"

section \<open>Environment lighting\<close>

definition urlretrieve :: "host \<Rightarrow> string \<Rightarrow> string \<Rightarrow> unit run" where
  "urlretrieve h url path =
     (\<lambda>s. if url_retrievable h url then (Inr (), s\<lparr>files := insert path (files s)\<rparr>)
          else (Inl (URLError url), s))"

definition download_hdri :: "host \<Rightarrow> string run" where
  "download_hdri h =
     (\<lambda>s. let hdri_url =
                ''https://dl.polyhaven.org/file/ph-assets/HDRIs/hdr/4k/studio_small_09_4k.hdr'';
              hdri_path = path_join TEXTURES_DIR ''studio_small_09.hdr''
          in if hdri_path \<notin> files s
             then seq (print_line (Downloading_HDRI hdri_url)) (\<lambda>_.
                  seq (urlretrieve h hdri_url hdri_path) (\<lambda>_.
                  ret hdri_path)) s
             else ret hdri_path s)"

text \<open>
  \<open>setup_hdri\<close> builds the world's node tree. The world is created when the scene has
  none, and its old nodes are removed, so the tree starts empty in both cases. The
  function is given in three parts: the \<^verbatim>\<open>try\<close> statement that loads the panorama
  into the environment node, the statements after it that add and link the other
  nodes, and \<open>setup_hdri\<close> itself, which runs the two on a fresh environment node.

  In the \<^verbatim>\<open>try\<close> block the source assigns the loaded image to the node before it
  sets the image's colour space; the handler then resets the node's image, so the
  handler's tree is the same whether the raise came before or after that assignment.
  The settings of the world's visibility and of the viewport that end the source
  function touch no node and are left out.
\<close>

definition load_environment :: "host \<Rightarrow> string \<Rightarrow> nat \<Rightarrow> node_tree \<Rightarrow> node_tree run" where
  "load_environment h hdri_path env_tex t =
     try_except
       (seq (images_load h hdri_path False) (\<lambda>img.
        seq (set_colorspace h img ''Filmic sRGB'') (\<lambda>_.
        ret (set_image env_tex (Some img) t))))
       (seq (print_line (Warning_HDRI hdri_path)) (\<lambda>_.
        ret (set_color env_tex (0.05, 0.05, 0.05, 1.0) (set_image env_tex None t))))"

definition world_nodes :: "nat \<Rightarrow> node_tree \<Rightarrow> node_tree" where
  "world_nodes env_tex t2 =
     (let t3 = set_location env_tex (-600, 200) t2;
          (background, t4) = nodes_new ''ShaderNodeBackground'' t3;
          t5 = set_location background (-300, 200) t4;
          t6 = set_default_value background (Name ''Strength'') 1.0 t5;
          (env_mapping, t7) = nodes_new ''ShaderNodeMapping'' t6;
          t8 = set_location env_mapping (-800, 200) t7;
          t9 = set_vector_type env_mapping ''TEXTURE'' t8;
          (tex_coord, t10) = nodes_new ''ShaderNodeTexCoord'' t9;
          t11 = set_location tex_coord (-1000, 200) t10;
          t12 = links_new tex_coord (Name ''Generated'') env_mapping (Name ''Vector'') t11;
          t13 = links_new env_mapping (Name ''Vector'') env_tex (Name ''Vector'') t12;
          t14 = links_new env_tex (Name ''Color'') background (Name ''Color'') t13;
          (mix_shader, t15) = nodes_new ''ShaderNodeMixShader'' t14;
          t16 = set_location mix_shader (0, 200) t15;
          t17 = set_default_value mix_shader (Idx 0) 1.0 t16;
          (ao, t18) = nodes_new ''ShaderNodeAmbientOcclusion'' t17;
          t19 = set_location ao (-300, 0) t18;
          (output, t20) = nodes_new ''ShaderNodeOutputWorld'' t19;
          t21 = set_location output (300, 200) t20;
          t22 = links_new background (Name ''Background'') mix_shader (Idx 1) t21;
          t23 = links_new ao (Name ''Color'') mix_shader (Idx 2) t22
      in links_new mix_shader (Idx 0) output (Name ''Surface'') t23)"

definition setup_hdri :: "host \<Rightarrow> string \<Rightarrow> unit run" where
  "setup_hdri h hdri_path =
     (let (env_tex, t1) = nodes_new ''ShaderNodeTexEnvironment'' empty_tree
      in seq (load_environment h hdri_path env_tex t1) (\<lambda>t2.
         (\<lambda>s. (Inr (), s\<lparr>world := Some (world_nodes env_tex t2)\<rparr>))))"

section \<open>Normalising a mesh\<close>

text \<open>
  The operators the loop body calls act on the active, selected object. Their effect on
  that object is modelled as far as the script's own fields go:
  \<^verbatim>\<open>transform_apply(location=False, rotation=True, scale=True)\<close> bakes rotation and scale
  into the mesh and leaves both at identity; \<^verbatim>\<open>origin_set\<close> moves the origin to the centre
  of the bounding box, which is where the object's location then is;
  \<^verbatim>\<open>shade_smooth\<close> sets the smooth flag of every polygon. The geometry itself is not
  modelled, so the normal recomputation shows only as its calls. These operators work
  in memory and are taken to succeed.
\<close>

definition transform_apply :: "object \<Rightarrow> object" where
  "transform_apply obj = obj\<lparr>rotation_euler := (0, 0, 0), obj_scale := (1, 1, 1)\<rparr>"

definition origin_set :: "host \<Rightarrow> object \<Rightarrow> object" where
  "origin_set h obj = obj\<lparr>location := bounds_center h obj\<rparr>"

definition shade_smooth :: "object \<Rightarrow> object" where
  "shade_smooth obj = obj\<lparr>polygons := map (\<lambda>_. True) (polygons obj)\<rparr>"

definition update_object :: "nat \<Rightarrow> (object \<Rightarrow> object) \<Rightarrow> unit run" where
  "update_object i f = (\<lambda>s. (Inr (), s\<lparr>objects := (objects s)[i := f (objects s ! i)]\<rparr>))"

text \<open>One statement of the loop body: the call is recorded, then takes effect.\<close>

definition step :: "event \<Rightarrow> nat \<Rightarrow> (object \<Rightarrow> object) \<Rightarrow> unit run" where
  "step e i f = seq (emit e) (\<lambda>_. update_object i f)"

definition process_materials_of :: "host \<Rightarrow> nat \<Rightarrow> unit run" where
  "process_materials_of h i =
     (\<lambda>s. seq (process_materials h (objects s ! i)) (\<lambda>obj'. update_object i (\<lambda>_. obj')) s)"

text \<open>The body of the loop over the imported meshes; \<open>i\<close> is the object's position in
  the scene.\<close>

definition normalize_mesh :: "host \<Rightarrow> nat \<Rightarrow> unit run" where
  "normalize_mesh h i =
     (\<lambda>s. let obj = obj_name (objects s ! i) in
        (seq (emit (Set_active obj)) (\<lambda>_.
         seq (step (Select_set obj True) i (\<lambda>ob. ob\<lparr>selected := True\<rparr>)) (\<lambda>_.
         seq (step (Set_scale obj) i (\<lambda>ob. ob\<lparr>obj_scale := (1, 1, 1)\<rparr>)) (\<lambda>_.
         seq (step (Set_rotation_euler obj) i (\<lambda>ob. ob\<lparr>rotation_euler := (0, 0, 0)\<rparr>)) (\<lambda>_.
         seq (step (Transform_apply obj) i transform_apply) (\<lambda>_.
         seq (step (Origin_set obj) i (origin_set h)) (\<lambda>_.
         seq (step (Set_location obj) i (\<lambda>ob. ob\<lparr>location := (0, 0, 0)\<rparr>)) (\<lambda>_.
         seq (emit (Process_materials obj)) (\<lambda>_.
         seq (process_materials_of h i) (\<lambda>_.
         seq (\<lambda>s1. if polygons (objects s1 ! i) \<noteq> []
                   then seq (step (Shade_smooth obj) i shade_smooth) (\<lambda>_.
                        step (Set_auto_smooth obj) i
                          (\<lambda>ob. ob\<lparr>use_auto_smooth := True, auto_smooth_angle := 1.0472\<rparr>)) s1
                   else ret () s1) (\<lambda>_.
         seq (emit (Mode_set obj ''EDIT'')) (\<lambda>_.
         seq (emit (Mesh_select_all obj)) (\<lambda>_.
         seq (emit (Normals_make_consistent obj)) (\<lambda>_.
         seq (emit (Mode_set obj ''OBJECT'')) (\<lambda>_.
         step (Select_set obj False) i (\<lambda>ob. ob\<lparr>selected := False\<rparr>)))))))))))))))) s)"

fun for_each :: "('a \<Rightarrow> unit run) \<Rightarrow> 'a list \<Rightarrow> unit run" where
  "for_each f [] = ret ()"
| "for_each f (x # xs) = seq (f x) (\<lambda>_. for_each f xs)"

section \<open>Processing one model\<close>

definition clear_scene :: "unit run" where
  "clear_scene =
     seq (emit Clear_scene) (\<lambda>_.
     (\<lambda>s. (Inr (), s\<lparr>objects :=
              filter (\<lambda>ob. obj_type ob \<noteq> ''MESH'' \<and> obj_type ob \<noteq> ''LIGHT''
                          \<and> obj_type ob \<noteq> ''CAMERA'') (objects s)\<rparr>)))"

definition import_gltf :: "host \<Rightarrow> string \<Rightarrow> unit run" where
  "import_gltf h path =
     seq (emit (Import_gltf path)) (\<lambda>_.
     (\<lambda>s. case gltf_objects h path of
            None \<Rightarrow> (Inl (RuntimeError ''bpy.ops.import_scene.gltf''), s)
          | Some obs \<Rightarrow> (Inr (), s\<lparr>objects := objects s @ obs\<rparr>)))"

definition export_gltf :: "host \<Rightarrow> string \<Rightarrow> unit run" where
  "export_gltf h path =
     seq (emit (Export_gltf path)) (\<lambda>_.
     (\<lambda>s. if gltf_exportable h path then (Inr (), s\<lparr>files := insert path (files s)\<rparr>)
          else (Inl (RuntimeError ''bpy.ops.export_scene.gltf''), s)))"

definition camera_object :: object where
  "camera_object =
     \<lparr>obj_name = ''Camera'', obj_type = ''CAMERA'', obj_scale = (1, 1, 1),
      rotation_euler = (1.0, 0, 0.8), location = (2, -2, 1.5), selected = True,
      polygons = [], use_auto_smooth = False, auto_smooth_angle = 0,
      material_slots = []\<rparr>"

definition setup_camera :: "unit run" where
  "setup_camera =
     seq (\<lambda>s. if ''Camera'' \<notin> set (map obj_name (objects s))
              then seq (emit Camera_add) (\<lambda>_.
                   (\<lambda>s1. (Inr (), s1\<lparr>objects := objects s1 @ [camera_object]\<rparr>))) s
              else ret () s) (\<lambda>_.
     (\<lambda>s. if ''Camera'' \<in> set (map obj_name (objects s))
          then emit Set_scene_camera s else ret () s))"

text \<open>
  \<open>process_model\<close>. The lights of \<open>setup_lighting\<close> and the render settings are no
  subject here: both show as one call each.
\<close>

definition process_model :: "host \<Rightarrow> string \<Rightarrow> string \<Rightarrow> unit run" where
  "process_model h input_path output_path =
     seq (print_line (Processing input_path)) (\<lambda>_.
     seq clear_scene (\<lambda>_.
     seq (import_gltf h input_path) (\<lambda>_.
     seq (\<lambda>s. let imported_objects =
                     filter (\<lambda>i. obj_type (objects s ! i) = ''MESH'') [0..<length (objects s)]
              in for_each (normalize_mesh h) imported_objects s) (\<lambda>_.
     seq setup_camera (\<lambda>_.
     seq (emit Setup_lighting) (\<lambda>_.
     seq (download_hdri h) (\<lambda>hdri_path.
     seq (setup_hdri h hdri_path) (\<lambda>_.
     seq (emit Render_settings) (\<lambda>_.
     seq (export_gltf h output_path) (\<lambda>_.
     print_line (Exported output_path)))))))))))"

section \<open>The run over the assets\<close>

definition generate_html_viewer :: "host \<Rightarrow> string \<Rightarrow> bool run" where
  "generate_html_viewer h model_name =
     (let html_path = path_join OUTPUT_DIR (model_name @ ''_viewer.html'')
      in try_except
           (seq (\<lambda>s. if file_writable h html_path
                     then (Inr (), s\<lparr>files := insert html_path (files s)\<rparr>)
                     else (Inl (OSError html_path), s)) (\<lambda>_.
            seq (print_line (Generated_viewer html_path)) (\<lambda>_.
            ret True)))
           (seq (print_line (Error_generating_viewer model_name)) (\<lambda>_.
            ret False)))"

text \<open>The asset list of \<open>main\<close>: name and source address of each model.\<close>

definition models :: "(string \<times> string) list" where
  "models =
     [(''ring'', ''https://sketchfab.com/3d-models/doji-diamond-ring-297133c25c4b4d62b3237b05f800e323''),
      (''earring'', ''https://sketchfab.com/3d-models/earring-diamond-94db5e5434d14a9f87bbf3e5a5fd7dce''),
      (''shoe'', ''https://sketchfab.com/3d-models/nike-shoe-unboxing-animation-2a37e7725570445aa2a9c87b2a7d272a'')]"

text \<open>The body of the loop over the assets; \<^verbatim>\<open>continue\<close> ends the body for this asset.\<close>

definition main_body :: "host \<Rightarrow> string \<times> string \<Rightarrow> unit run" where
  "main_body h model =
     (\<lambda>s. let input_glb = path_join MODELS_DIR (fst model @ ''.glb'');
              output_glb = path_join OUTPUT_DIR (fst model @ ''_final.glb'')
          in if input_glb \<notin> files s
             then print_line (Please_download (fst model) (snd model) input_glb) s
             else seq (process_model h input_glb output_glb) (\<lambda>_.
                  seq (generate_html_viewer h (fst model)) (\<lambda>_.
                  ret ())) s)"

text \<open>
  \<open>main\<close>, from the download of the panorama on (the diagnostic prints before it are
  left out). The documentation and the archive that follow the loop are written by
  \<open>generate_documentation\<close> and \<open>create_final_zip\<close>, each modelled by the line it
  prints on success.
\<close>

definition main :: "host \<Rightarrow> unit run" where
  "main h =
     seq (download_hdri h) (\<lambda>hdri_path.
     seq (setup_hdri h hdri_path) (\<lambda>_.
     seq (for_each (main_body h) models) (\<lambda>_.
     seq (print_line (Generated_documentation (path_join OUTPUT_DIR ''documentation.md''))) (\<lambda>_.
     print_line Created_package))))"

section \<open>Derived notions\<close>

subsection \<open>Texture channels\<close>

text \<open>
  A channel is available when its file is there, the image is already loaded or
  decodes, and the host takes the colour-space name; that is when \<open>load_texture\<close>
  returns an image. \<open>tagged\<close> says of a loaded image what the loader leaves true of it.
\<close>

definition available :: "host \<Rightarrow> state \<Rightarrow> string \<Rightarrow> string \<Rightarrow> bool" where
  "available h s texture_name cs =
     (texture_file texture_name \<in> files s
      \<and> (texture_file texture_name \<in> set (map filepath (images s))
           \<or> image_loadable h (texture_file texture_name))
      \<and> colorspace_ok h cs)"

definition tagged :: "host \<Rightarrow> state \<Rightarrow> nat option \<Rightarrow> string \<Rightarrow> string \<Rightarrow> bool" where
  "tagged h s img path cs =
     (case img of
        None \<Rightarrow> True
      | Some k \<Rightarrow> k < length (images s) \<and> filepath (images s ! k) = path
                 \<and> colorspace (images s ! k) = cs \<and> colorspace_ok h cs)"

subsection \<open>The tree a material gets, in closed form\<close>

definition tex_nodes :: "nat option \<Rightarrow> int \<times> int \<Rightarrow> node list" where
  "tex_nodes img loc =
     (case img of
        None \<Rightarrow> []
      | Some k \<Rightarrow>
          [(new_node ''ShaderNodeTexImage'')\<lparr>node_image := Some k, node_location := Some loc\<rparr>])"

definition tex_links :: "nat option \<Rightarrow> nat \<Rightarrow> nat \<Rightarrow> nat \<Rightarrow> string \<Rightarrow> link list" where
  "tex_links img mapping tex bsdf inp =
     (case img of
        None \<Rightarrow> []
      | Some _ \<Rightarrow>
          [\<lparr>from_node = mapping, from_socket = Name ''Vector'',
            to_node = tex, to_socket = Name ''Vector''\<rparr>,
           \<lparr>from_node = tex, from_socket = Name ''Color'',
            to_node = bsdf, to_socket = Name inp\<rparr>])"

definition normal_nodes :: "nat option \<Rightarrow> node list" where
  "normal_nodes img =
     (case img of
        None \<Rightarrow> []
      | Some k \<Rightarrow>
          [(new_node ''ShaderNodeTexImage'')
             \<lparr>node_image := Some k, node_location := Some (-600, 0)\<rparr>,
           (new_node ''ShaderNodeNormalMap'')\<lparr>node_location := Some (-200, 0)\<rparr>])"

definition normal_links :: "nat option \<Rightarrow> nat \<Rightarrow> nat \<Rightarrow> nat \<Rightarrow> link list" where
  "normal_links img mapping tex bsdf =
     (case img of
        None \<Rightarrow> []
      | Some _ \<Rightarrow>
          [\<lparr>from_node = mapping, from_socket = Name ''Vector'',
            to_node = tex, to_socket = Name ''Vector''\<rparr>,
           \<lparr>from_node = tex, from_socket = Name ''Color'',
            to_node = Suc tex, to_socket = Name ''Color''\<rparr>,
           \<lparr>from_node = Suc tex, from_socket = Name ''Normal'',
            to_node = bsdf, to_socket = Name ''Normal''\<rparr>])"

text \<open>The values the surface node's inputs end with, by the (lower-cased) name.\<close>

definition surface_defaults :: "string \<Rightarrow> (socket \<rightharpoonup> real)" where
  "surface_defaults name =
     (let base = [Name ''Specular'' \<mapsto> 0.5, Name ''Roughness'' \<mapsto> 0.7,
                  Name ''Metallic'' \<mapsto> 0.0]
      in if str_in ''gold'' name
         then base(Name ''Metallic'' \<mapsto> 1.0, Name ''Roughness'' \<mapsto> 0.2)
         else if str_in ''silver'' name \<or> str_in ''metal'' name
         then base(Name ''Metallic'' \<mapsto> 1.0, Name ''Roughness'' \<mapsto> 0.1)
         else if str_in ''diamond'' name \<or> str_in ''gem'' name
         then base(Name ''Metallic'' \<mapsto> 0.0, Name ''Roughness'' \<mapsto> 0.02,
                   Name ''Transmission'' \<mapsto> 1.0, Name ''IOR'' \<mapsto> 2.4)
         else base)"

definition built_tree ::
  "nat option \<Rightarrow> nat option \<Rightarrow> nat option \<Rightarrow> nat option \<Rightarrow> string \<Rightarrow> node_tree" where
  "built_tree a n r m name =
     (let tn = 4 + length (tex_nodes a (-600, 300));
          tr = tn + length (normal_nodes n);
          tm = tr + length (tex_nodes r (-600, -200))
      in \<lparr>nodes =
            [(new_node ''ShaderNodeBsdfPrincipled'')\<lparr>default_value := surface_defaults name\<rparr>,
             (new_node ''ShaderNodeOutputMaterial'')\<lparr>node_location := Some (400, 0)\<rparr>,
             new_node ''ShaderNodeTexCoord'',
             (new_node ''ShaderNodeMapping'')\<lparr>vector_type := Some ''TEXTURE''\<rparr>]
            @ tex_nodes a (-600, 300) @ normal_nodes n
            @ tex_nodes r (-600, -200) @ tex_nodes m (-600, -400),
          links =
            [\<lparr>from_node = 2, from_socket = Name ''UV'',
              to_node = 3, to_socket = Name ''Vector''\<rparr>]
            @ tex_links a 3 4 0 ''Base Color'' @ normal_links n 3 tn 0
            @ tex_links r 3 tr 0 ''Roughness'' @ tex_links m 3 tm 0 ''Metallic''
            @ [\<lparr>from_node = 0, from_socket = Name ''BSDF'',
                to_node = 1, to_socket = Name ''Surface''\<rparr>]\<rparr>)"

definition synthesized ::
  "nat option \<Rightarrow> nat option \<Rightarrow> nat option \<Rightarrow> nat option \<Rightarrow> material \<Rightarrow> material" where
  "synthesized a n r m mat =
     mat\<lparr>use_nodes := True, mat_node_tree := built_tree a n r m (lower (mat_name mat))\<rparr>"

subsection \<open>Reading a tree\<close>

definition surface_nodes :: "node_tree \<Rightarrow> node list" where
  "surface_nodes t = filter (\<lambda>nd. bl_idname nd = ''ShaderNodeBsdfPrincipled'') (nodes t)"

definition sampler_nodes :: "node_tree \<Rightarrow> node list" where
  "sampler_nodes t = filter (\<lambda>nd. bl_idname nd = ''ShaderNodeTexImage'') (nodes t)"

text \<open>The inputs of the surface node that a link feeds.\<close>

definition linked_surface_inputs :: "node_tree \<Rightarrow> socket list" where
  "linked_surface_inputs t =
     map to_socket
       (filter (\<lambda>l. bl_idname (nodes t ! to_node l) = ''ShaderNodeBsdfPrincipled'') (links t))"

text \<open>Every link that leaves a node holding an image: the image, and the type and the
  input of the node the link enters.\<close>

definition texture_uses :: "node_tree \<Rightarrow> (nat \<times> string \<times> socket) list" where
  "texture_uses t =
     concat (map (\<lambda>l. case node_image (nodes t ! from_node l) of
                         None \<Rightarrow> []
                       | Some k \<Rightarrow> [(k, bl_idname (nodes t ! to_node l), to_socket l)])
                 (links t))"

datatype channel = Base_color | Normal | Roughness | Metallic

definition channel_of :: "string \<Rightarrow> socket \<Rightarrow> channel option" where
  "channel_of ty inp =
     (if ty = ''ShaderNodeBsdfPrincipled'' \<and> inp = Name ''Base Color'' then Some Base_color
      else if ty = ''ShaderNodeNormalMap'' \<and> inp = Name ''Color'' then Some Normal
      else if ty = ''ShaderNodeBsdfPrincipled'' \<and> inp = Name ''Roughness'' then Some Roughness
      else if ty = ''ShaderNodeBsdfPrincipled'' \<and> inp = Name ''Metallic'' then Some Metallic
      else None)"

text \<open>The tag each channel is declared to carry: colour for the base colour, data for
  the others.\<close>

fun declared_colorspace :: "channel \<Rightarrow> string" where
  "declared_colorspace Base_color = ''sRGB''"
| "declared_colorspace Normal = ''Non-Color''"
| "declared_colorspace Roughness = ''Non-Color''"
| "declared_colorspace Metallic = ''Non-Color''"

subsection \<open>Sample inputs\<close>

definition host_ok :: host where
  "host_ok =
     \<lparr>image_loadable = (\<lambda>_. True), default_colorspace = (\<lambda>_. ''Linear''),
      colorspace_ok = (\<lambda>_. True), url_retrievable = (\<lambda>_. True),
      gltf_objects = (\<lambda>_. Some []), gltf_exportable = (\<lambda>_. True),
      file_writable = (\<lambda>_. True), bounds_center = (\<lambda>_. (3, 4, 5))\<rparr>"

definition state_empty :: state where
  "state_empty =
     \<lparr>files = {}, images = [], objects = [], world = None, stdout = [], trace = []\<rparr>"

definition state_textures :: state where
  "state_textures =
     state_empty\<lparr>files := {texture_file ''albedo'', texture_file ''normal'',
                              texture_file ''roughness'', texture_file ''metallic''}\<rparr>"

definition ring :: object where
  "ring =
     \<lparr>obj_name = ''Ring'', obj_type = ''MESH'', obj_scale = (2, 2, 2),
      rotation_euler = (1, 0, 0), location = (7, 8, 9), selected = False,
      polygons = [False, False], use_auto_smooth = False, auto_smooth_angle = 0,
      material_slots =
        [Some \<lparr>mat_name = ''Rose_GOLD Metal'', use_nodes = False, mat_node_tree = empty_tree\<rparr>,
         None,
         Some \<lparr>mat_name = ''Stone'', use_nodes = False, mat_node_tree = empty_tree\<rparr>]\<rparr>"

subsection \<open>The rule table, as the specification words it\<close>

text \<open>
  An ordered table of rules, each a list of words and the values it sets; the first
  rule one of whose words the name contains in any letter case wins, and a name that
  matches none gets the default values.
\<close>

definition rule_table :: "(string list \<times> (string \<times> real) list) list" where
  "rule_table =
     [([''gold''], [(''Metallic'', 1.0), (''Roughness'', 0.2)]),
      ([''silver'', ''metal''], [(''Metallic'', 1.0), (''Roughness'', 0.1)]),
      ([''diamond'', ''gem''],
         [(''Metallic'', 0.0), (''Roughness'', 0.02), (''Transmission'', 1.0), (''IOR'', 2.4)])]"

definition default_rule :: "(string \<times> real) list" where
  "default_rule = [(''Metallic'', 0.0), (''Roughness'', 0.7), (''Specular'', 0.5)]"

fun first_match :: "(string list \<times> (string \<times> real) list) list \<Rightarrow> string \<Rightarrow> (string \<times> real) list" where
  "first_match [] name = default_rule"
| "first_match ((keys, params) # rules) name =
     (if \<exists>k\<in>set keys. contains_any_case k name then params else first_match rules name)"

definition classify :: "string \<Rightarrow> (string \<times> real) list" where
  "classify name = first_match rule_table name"

subsection \<open>The world graph\<close>



text \<open>The panorama loads when its file is there and decodes and the host knows the
  colour space the script asks for.\<close>

definition panorama_loads :: "host \<Rightarrow> state \<Rightarrow> string \<Rightarrow> bool" where
  "panorama_loads h s path =
     (path \<in> files s \<and> image_loadable h path \<and> colorspace_ok h ''Filmic sRGB'')"

subsection \<open>Stages of the normalisation\<close>

text \<open>The calls the loop body makes for one mesh, in closed form.\<close>

definition mesh_events :: "string \<Rightarrow> bool \<Rightarrow> event list" where
  "mesh_events obj has_polygons =
     [Set_active obj, Select_set obj True,
      Set_scale obj, Set_rotation_euler obj, Transform_apply obj,
      Origin_set obj, Set_location obj,
      Process_materials obj]
     @ (if has_polygons then [Shade_smooth obj, Set_auto_smooth obj] else [])
     @ [Mode_set obj ''EDIT'', Mesh_select_all obj, Normals_make_consistent obj,
        Mode_set obj ''OBJECT'',
        Select_set obj False]"

datatype stage =
  Imported | TransformBaked | OriginCentered | Shaded | Smoothed | NormalsFixed | Done

fun stage_rank :: "stage \<Rightarrow> nat" where
  "stage_rank Imported = 0"
| "stage_rank TransformBaked = 1"
| "stage_rank OriginCentered = 2"
| "stage_rank Shaded = 3"
| "stage_rank Smoothed = 4"
| "stage_rank NormalsFixed = 5"
| "stage_rank Done = 6"

text \<open>The stage a call belongs to: picking the imported mesh, then the stages of the
  specification, and the deselection that ends the mesh's turn.\<close>

fun stage_of :: "event \<Rightarrow> stage option" where
  "stage_of (Set_active _) = Some Imported"
| "stage_of (Select_set _ sel) = Some (if sel then Imported else Done)"
| "stage_of (Set_scale _) = Some TransformBaked"
| "stage_of (Set_rotation_euler _) = Some TransformBaked"
| "stage_of (Transform_apply _) = Some TransformBaked"
| "stage_of (Origin_set _) = Some OriginCentered"
| "stage_of (Set_location _) = Some OriginCentered"
| "stage_of (Process_materials _) = Some Shaded"
| "stage_of (Shade_smooth _) = Some Smoothed"
| "stage_of (Set_auto_smooth _) = Some Smoothed"
| "stage_of (Mode_set _ _) = Some NormalsFixed"
| "stage_of (Mesh_select_all _) = Some NormalsFixed"
| "stage_of (Normals_make_consistent _) = Some NormalsFixed"
| "stage_of _ = None"

definition stages :: "event list \<Rightarrow> stage list" where
  "stages evs = remdups_adj (List.map_filter stage_of evs)"

text \<open>\<open>before a b evs\<close>: the call \<open>a\<close> is made, and made before the first call \<open>b\<close>.\<close>

definition before :: "event \<Rightarrow> event \<Rightarrow> event list \<Rightarrow> bool" where
  "before a b evs = (a \<in> set (takeWhile (\<lambda>e. e \<noteq> b) evs))"

definition empty_mesh :: object where
  "empty_mesh =
     \<lparr>obj_name = ''Empty'', obj_type = ''MESH'', obj_scale = (2, 2, 2),
      rotation_euler = (1, 0, 0), location = (7, 8, 9), selected = False,
      polygons = [], use_auto_smooth = False, auto_smooth_angle = 0,
      material_slots = []\<rparr>"

definition state_scene :: state where
  "state_scene = state_textures\<lparr>objects := [ring, empty_mesh]\<rparr>"

subsection \<open>Sample runs\<close>

text \<open>A host on which every export fails, and a state that has the three asset files.\<close>

definition host_export_fails :: host where
  "host_export_fails = host_ok\<lparr>gltf_exportable := (\<lambda>_. False)\<rparr>"

definition state_assets :: state where
  "state_assets =
     state_empty\<lparr>files := {path_join MODELS_DIR ''ring.glb'', path_join MODELS_DIR ''earring.glb'',
                           path_join MODELS_DIR ''shoe.glb''}\<rparr>"

section \<open>Lemmas on the loader and the synthesizer\<close>

lemmas run_defs = ret_def seq_def raise_def try_except_def print_line_def emit_def

lemma set_colorspace_same:
  "k < length (images s) \<Longrightarrow> colorspace (images s ! k) = cs \<Longrightarrow> colorspace_ok h cs
   \<Longrightarrow> set_colorspace h k cs s = (Inr (), s)"
proof -
  assume a: "k < length (images s)" "colorspace (images s ! k) = cs" "colorspace_ok h cs"
  have "(images s ! k)\<lparr>colorspace := cs\<rparr> = images s ! k"
    using a(2) by (cases "images s ! k") auto
  then have "(images s)[k := (images s ! k)\<lparr>colorspace := cs\<rparr>] = images s"
    by simp
  then show ?thesis using a(3) by (simp add: set_colorspace_def)
qed

lemma new_node_simps [simp]:
  "bl_idname (new_node ty) = ty" "node_image (new_node ty) = None"
  "node_location (new_node ty) = None" "vector_type (new_node ty) = None"
  "node_color (new_node ty) = None" "default_value (new_node ty) = Map.empty"
  by (simp_all add: new_node_def)

lemma nodes_new_eq:
  "nodes_new ty t = (length (nodes t), t\<lparr>nodes := nodes t @ [new_node ty]\<rparr>)"
  by (simp add: nodes_new_def)

lemma update_node_last:
  "update_node (length xs) f (t\<lparr>nodes := xs @ nd # rest\<rparr>) = t\<lparr>nodes := xs @ f nd # rest\<rparr>"
  by (simp add: update_node_def)

lemma update_node_last2:
  "update_node (Suc (length xs)) f (t\<lparr>nodes := xs @ n0 # nd # rest\<rparr>)
     = t\<lparr>nodes := xs @ n0 # f nd # rest\<rparr>"
  by (simp add: update_node_def nth_append list_update_append)

lemmas set_defs = set_default_value_def set_location_def set_vector_type_def set_image_def set_color_def

lemma create_texture_node_tagged:
  "tagged h s (Some k) p (if cs = ''sRGB'' then ''sRGB'' else ''Non-Color'') \<Longrightarrow>
   create_texture_node h t (Some k) nm loc cs s =
     (Inr (Some (length (nodes t)), t\<lparr>nodes := nodes t @ tex_nodes (Some k) loc\<rparr>), s)"
  unfolding create_texture_node_def tagged_def
  by (simp add: run_defs nodes_new_eq set_defs update_node_last set_colorspace_same tex_nodes_def)

lemma add_base_color_tagged:
  "tagged h s a p ''sRGB'' \<Longrightarrow>
   add_base_color h a mp b t s =
     (Inr (t\<lparr>nodes := nodes t @ tex_nodes a (-600, 300),
             links := links t @ tex_links a mp (length (nodes t)) b ''Base Color''\<rparr>), s)"
  by (cases a) (simp_all add: add_base_color_def create_texture_node_tagged [where cs = "''sRGB''" and p = p, simplified] run_defs links_new_def tex_links_def tex_nodes_def)

lemma add_roughness_map_tagged:
  "tagged h s a p ''Non-Color'' \<Longrightarrow>
   add_roughness_map h a mp b t s =
     (Inr (t\<lparr>nodes := nodes t @ tex_nodes a (-600, -200),
             links := links t @ tex_links a mp (length (nodes t)) b ''Roughness''\<rparr>), s)"
  by (cases a) (simp_all add: add_roughness_map_def create_texture_node_tagged [where cs = "''Non-Color''" and p = p, simplified] run_defs links_new_def tex_links_def tex_nodes_def)

lemma add_metallic_map_tagged:
  "tagged h s a p ''Non-Color'' \<Longrightarrow>
   add_metallic_map h a mp b t s =
     (Inr (t\<lparr>nodes := nodes t @ tex_nodes a (-600, -400),
             links := links t @ tex_links a mp (length (nodes t)) b ''Metallic''\<rparr>), s)"
  by (cases a) (simp_all add: add_metallic_map_def create_texture_node_tagged [where cs = "''Non-Color''" and p = p, simplified] run_defs links_new_def tex_links_def tex_nodes_def)

lemma add_normal_map_tagged:
  "tagged h s a p ''Non-Color'' \<Longrightarrow>
   add_normal_map h a mp b t s =
     (Inr (t\<lparr>nodes := nodes t @ normal_nodes a,
             links := links t @ normal_links a mp (length (nodes t)) b\<rparr>), s)"
  by (cases a) (simp_all add: add_normal_map_def create_texture_node_tagged [where cs = "''Non-Color''" and p = p, simplified] run_defs links_new_def normal_links_def normal_nodes_def tex_nodes_def nodes_new_eq set_defs update_node_last2 Let_def)

lemma adjust_surface:
  "adjust_material_settings 0 name
     \<lparr>nodes = (new_node ''ShaderNodeBsdfPrincipled'')
                 \<lparr>default_value := [Name ''Specular'' \<mapsto> 1 / 2, Name ''Roughness'' \<mapsto> 7 / 10, Name ''Metallic'' \<mapsto> 0]\<rparr> # ns,
      links = ls\<rparr>
   = \<lparr>nodes = (new_node ''ShaderNodeBsdfPrincipled'')\<lparr>default_value := surface_defaults name\<rparr> # ns,
      links = ls\<rparr>"
  by (simp add: adjust_material_settings_def surface_defaults_def set_default_value_def update_node_def Let_def)

lemma process_material_tagged:
  assumes "tagged h s a pa ''sRGB''" "tagged h s n pn ''Non-Color''"
    "tagged h s r pr ''Non-Color''" "tagged h s m pm ''Non-Color''"
  shows "process_material h a n r m mat s = (Inr (synthesized a n r m mat), s)"
proof -
  have pre: "\<And>f. (let (bsdf, t1) = nodes_new ''ShaderNodeBsdfPrincipled'' empty_tree;
          (output, t2) = nodes_new ''ShaderNodeOutputMaterial'' t1;
          t3 = set_location output (400, 0) t2;
          t4 = set_default_value bsdf (Name ''Specular'') 0.5 t3;
          t5 = set_default_value bsdf (Name ''Roughness'') 0.7 t4;
          t6 = set_default_value bsdf (Name ''Metallic'') 0.0 t5;
          name = lower (mat_name mat);
          (tex_coord, t7) = nodes_new ''ShaderNodeTexCoord'' t6;
          (mapping, t8) = nodes_new ''ShaderNodeMapping'' t7;
          t9 = set_vector_type mapping ''TEXTURE'' t8;
          t10 = links_new tex_coord (Name ''UV'') mapping (Name ''Vector'') t9
      in f bsdf output name mapping t10) =
      f 0 1 (lower (mat_name mat)) 3
        \<lparr>nodes = [(new_node ''ShaderNodeBsdfPrincipled'')
                 \<lparr>default_value := [Name ''Specular'' \<mapsto> 0.5, Name ''Roughness'' \<mapsto> 0.7, Name ''Metallic'' \<mapsto> 0.0]\<rparr>,
             (new_node ''ShaderNodeOutputMaterial'')\<lparr>node_location := Some (400, 0)\<rparr>,
             new_node ''ShaderNodeTexCoord'',
             (new_node ''ShaderNodeMapping'')\<lparr>vector_type := Some ''TEXTURE''\<rparr>],
          links = [\<lparr>from_node = 2, from_socket = Name ''UV'', to_node = 3, to_socket = Name ''Vector''\<rparr>]\<rparr>"
    by (simp add: nodes_new_eq empty_tree_def set_defs update_node_def links_new_def Let_def numeral_3_eq_3 numeral_2_eq_2)
  show ?thesis
    unfolding process_material_def pre
    using assms
    by (simp add: add_base_color_tagged [where p = pa] add_normal_map_tagged [where p = pn]
        add_roughness_map_tagged [where p = pr] add_metallic_map_tagged [where p = pm]
        seq_def ret_def links_new_def adjust_surface synthesized_def built_tree_def Let_def
        eval_nat_numeral add.assoc)
qed

lemma find_index_Some: "find_index P xs = Some k \<Longrightarrow> k < length xs \<and> P (xs ! k)"
  by (induction xs arbitrary: k) (auto split: if_splits)

lemma find_index_None: "find_index P xs = None \<longleftrightarrow> (\<forall>x\<in>set xs. \<not> P x)"
  by (induction xs) auto

lemma find_index_Some_path:
  assumes "find_index (\<lambda>i. filepath i = p) xs = Some k"
  shows "k < length xs" "filepath (xs ! k) = p" "p \<in> filepath ` set xs"
proof -
  show k: "k < length xs" and f: "filepath (xs ! k) = p"
    using find_index_Some [OF assms] by simp_all
  from k have "xs ! k \<in> set xs" by simp
  with f show "p \<in> filepath ` set xs" by force
qed

lemma find_index_None_path:
  "find_index (\<lambda>i. filepath i = p) xs = None \<Longrightarrow> p \<notin> filepath ` set xs"
  by (auto simp: find_index_None)

lemma load_texture_absent:
  "texture_file n \<notin> files s \<Longrightarrow> load_texture h n cs s = (Inr None, s)"
  by (simp add: load_texture_def texture_file_def run_defs)

lemma load_texture_existing:
  assumes "texture_file n \<in> files s"
    and "find_index (\<lambda>i. filepath i = texture_file n) (images s) = Some k"
  shows "load_texture h n cs s =
     (let tag = (if cs = ''sRGB'' then ''sRGB'' else ''Non-Color'') in
      if colorspace_ok h tag
      then (Inr (Some k), s\<lparr>images := (images s)[k := (images s ! k)\<lparr>colorspace := tag\<rparr>]\<rparr>)
      else (Inr None, s\<lparr>stdout := stdout s @ [Warning_texture n]\<rparr>))"
  using assms
  by (auto simp: load_texture_def texture_file_def images_load_def set_colorspace_def run_defs Let_def)

lemma load_texture_fresh:
  assumes "texture_file n \<in> files s"
    and "find_index (\<lambda>i. filepath i = texture_file n) (images s) = None"
  shows "load_texture h n cs s =
     (let p = texture_file n; tag = (if cs = ''sRGB'' then ''sRGB'' else ''Non-Color'') in
      if image_loadable h p
      then if colorspace_ok h tag
           then (Inr (Some (length (images s))),
                 s\<lparr>images := images s @ [\<lparr>filepath = p, colorspace = tag\<rparr>]\<rparr>)
           else (Inr None,
                 s\<lparr>images := images s @ [\<lparr>filepath = p, colorspace = default_colorspace h p\<rparr>],
                   stdout := stdout s @ [Warning_texture n]\<rparr>)
      else (Inr None, s\<lparr>stdout := stdout s @ [Warning_texture n]\<rparr>))"
  using assms
  by (auto simp: load_texture_def texture_file_def images_load_def set_colorspace_def run_defs Let_def)

lemma load_texture_cases:
  obtains (absent) "texture_file n \<notin> files s" "load_texture h n cs s = (Inr None, s)"
  | (warned) s1 where "texture_file n \<in> files s" "load_texture h n cs s = (Inr None, s1\<lparr>stdout := stdout s @ [Warning_texture n]\<rparr>)"
      "s1 = s \<or> (texture_file n \<notin> filepath ` set (images s) \<and> s1 = s\<lparr>images := images s @ [\<lparr>filepath = texture_file n, colorspace = default_colorspace h (texture_file n)\<rparr>]\<rparr>)"
      "\<not> available h s n (if cs = ''sRGB'' then ''sRGB'' else ''Non-Color'')"
  | (existing) k where "texture_file n \<in> files s" "k < length (images s)"
      "filepath (images s ! k) = texture_file n" "texture_file n \<in> filepath ` set (images s)"
      "colorspace_ok h (if cs = ''sRGB'' then ''sRGB'' else ''Non-Color'')"
      "load_texture h n cs s = (Inr (Some k), s\<lparr>images := (images s)[k := (images s ! k)\<lparr>colorspace := (if cs = ''sRGB'' then ''sRGB'' else ''Non-Color'')\<rparr>]\<rparr>)"
  | (fresh) "texture_file n \<in> files s" "texture_file n \<notin> filepath ` set (images s)"
      "image_loadable h (texture_file n)"
      "colorspace_ok h (if cs = ''sRGB'' then ''sRGB'' else ''Non-Color'')"
      "load_texture h n cs s = (Inr (Some (length (images s))), s\<lparr>images := images s @ [\<lparr>filepath = texture_file n, colorspace = (if cs = ''sRGB'' then ''sRGB'' else ''Non-Color'')\<rparr>]\<rparr>)"
proof (cases "texture_file n \<in> files s")
  case False
  then show ?thesis using absent load_texture_absent by blast
next
  case inf: True
  show ?thesis
  proof (cases "find_index (\<lambda>i. filepath i = texture_file n) (images s)")
    case None
    note np = find_index_None_path [OF None]
    show ?thesis
    proof (cases "image_loadable h (texture_file n)")
      case lo: True
      show ?thesis
      proof (cases "colorspace_ok h (if cs = ''sRGB'' then ''sRGB'' else ''Non-Color'')")
        case True
        with lo inf np load_texture_fresh [OF inf None, of h cs] show ?thesis
          by (intro fresh) (simp_all add: Let_def)
      next
        case False
        with lo inf np load_texture_fresh [OF inf None, of h cs] show ?thesis
          by (intro warned [of "s\<lparr>images := images s @ [\<lparr>filepath = texture_file n, colorspace = default_colorspace h (texture_file n)\<rparr>]\<rparr>"])
             (simp_all add: Let_def available_def)
      qed
    next
      case False
      with inf np load_texture_fresh [OF inf None, of h cs] show ?thesis
        by (intro warned [of s]) (simp_all add: Let_def available_def)
    qed
  next
    case (Some k)
    note kp = find_index_Some_path [OF Some]
    show ?thesis
    proof (cases "colorspace_ok h (if cs = ''sRGB'' then ''sRGB'' else ''Non-Color'')")
      case True
      with inf kp load_texture_existing [OF inf Some, of h cs] show ?thesis
        by (intro existing [of k]) (simp_all add: Let_def)
    next
      case False
      with inf kp load_texture_existing [OF inf Some, of h cs] show ?thesis
        by (intro warned [of s]) (simp_all add: Let_def available_def)
    qed
  qed
qed

lemma load_texture_returns: "\<exists>r s'. load_texture h n cs s = (Inr r, s')"
  by (cases rule: load_texture_cases [where n = n and s = s and h = h and cs = cs]) auto

lemma load_texture_frame:
  assumes "load_texture h n cs s = (x, s')"
  shows "files s' = files s" "objects s' = objects s" "trace s' = trace s" "world s' = world s"
  using assms
  by (cases rule: load_texture_cases [where n = n and s = s and h = h and cs = cs]; auto)+

lemma load_texture_tagged:
  assumes "load_texture h n cs s = (Inr r, s')"
  shows "tagged h s' r (texture_file n) (if cs = ''sRGB'' then ''sRGB'' else ''Non-Color'')"
  using assms
  by (cases rule: load_texture_cases [where n = n and s = s and h = h and cs = cs])
     (auto simp: tagged_def)

lemma load_texture_keeps_tagged:
  assumes "load_texture h n cs s = (x, s')" "tagged h s r q t" "q \<noteq> texture_file n"
  shows "tagged h s' r q t"
  using assms
  by (cases rule: load_texture_cases [where n = n and s = s and h = h and cs = cs]; cases r)
     (auto simp: tagged_def nth_append nth_list_update)

lemma load_texture_available:
  assumes "load_texture h n cs s = (Inr r, s')"
  shows "r \<noteq> None \<longleftrightarrow> available h s n (if cs = ''sRGB'' then ''sRGB'' else ''Non-Color'')"
  using assms
  by (cases rule: load_texture_cases [where n = n and s = s and h = h and cs = cs])
     (auto simp: available_def)

lemma image_filepath_update:
  "filepath ` set (xs[k := (xs ! k)\<lparr>colorspace := c\<rparr>]) = filepath ` set xs"
proof -
  have "map filepath (xs[k := (xs ! k)\<lparr>colorspace := c\<rparr>]) = map filepath xs"
  proof (cases "k < length xs")
    case True
    then show ?thesis by (simp add: map_update list_update_same_conv)
  next
    case False
    then have "xs[k := (xs ! k)\<lparr>colorspace := c\<rparr>] = xs"
      by (simp add: list_update_beyond)
    then show ?thesis by (simp only:)
  qed
  then have "set (map filepath (xs[k := (xs ! k)\<lparr>colorspace := c\<rparr>])) = set (map filepath xs)"
    by (rule arg_cong)
  then show ?thesis by (simp only: set_map)
qed

lemma load_texture_files:
  assumes "load_texture h n cs s = (x, s')"
  shows "filepath ` set (images s') = filepath ` set (images s)
       \<or> filepath ` set (images s') = insert (texture_file n) (filepath ` set (images s))"
proof (cases rule: load_texture_cases [where n = n and s = s and h = h and cs = cs])
  case absent
  with assms show ?thesis by auto
next
  case (warned s1)
  with assms have "images s' = images s1" by auto
  with warned(3) show ?thesis by auto
next
  case (existing k)
  with assms have "images s' = (images s)[k := (images s ! k)\<lparr>colorspace :=
      (if cs = ''sRGB'' then ''sRGB'' else ''Non-Color'')\<rparr>]"
    by auto
  then have "filepath ` set (images s') = filepath ` set (images s)"
    by (simp only: image_filepath_update)
  then show ?thesis ..
next
  case fresh
  with assms show ?thesis by auto
qed

lemma load_texture_keeps_available:
  assumes "load_texture h n cs s = (x, s')" "texture_file n' \<noteq> texture_file n"
  shows "available h s' n' t = available h s n' t"
proof -
  have "texture_file n' \<in> filepath ` set (images s')
          \<longleftrightarrow> texture_file n' \<in> filepath ` set (images s)"
    using load_texture_files [OF assms(1)] assms(2) by auto
  then show ?thesis
    by (simp add: available_def load_texture_frame(1) [OF assms(1)])
qed

lemma process_slots_tagged:
  assumes "tagged h s a pa ''sRGB''" "tagged h s n pn ''Non-Color''"
    "tagged h s r pr ''Non-Color''" "tagged h s m pm ''Non-Color''"
  shows "process_slots h a n r m slots s = (Inr (map (map_option (synthesized a n r m)) slots), s)"
proof (induction slots)
  case Nil
  show ?case by (simp add: ret_def)
next
  case (Cons slot slots)
  show ?case
  proof (cases slot)
    case None
    with Cons show ?thesis by (simp add: seq_def ret_def)
  next
    case (Some mat)
    with Cons process_material_tagged [OF assms, of mat] show ?thesis
      by (simp add: seq_def ret_def)
  qed
qed

lemma texture_files_distinct:
  "texture_file ''albedo'' \<noteq> texture_file ''normal''"
  "texture_file ''albedo'' \<noteq> texture_file ''roughness''"
  "texture_file ''albedo'' \<noteq> texture_file ''metallic''"
  "texture_file ''normal'' \<noteq> texture_file ''roughness''"
  "texture_file ''normal'' \<noteq> texture_file ''metallic''"
  "texture_file ''roughness'' \<noteq> texture_file ''metallic''"
  by (simp_all add: texture_file_def path_join_def TEXTURES_DIR_def PROJECT_ROOT_def)

lemma process_materials_eq:
  assumes slots: "material_slots obj \<noteq> []"
    and la: "load_texture h ''albedo'' ''sRGB'' s = (Inr a, s1)"
    and ln: "load_texture h ''normal'' ''Non-Color'' s1 = (Inr n, s2)"
    and lr: "load_texture h ''roughness'' ''Non-Color'' s2 = (Inr r, s3)"
    and lm: "load_texture h ''metallic'' ''Non-Color'' s3 = (Inr m, s4)"
  shows "process_materials h obj s =
           (Inr (obj\<lparr>material_slots := map (map_option (synthesized a n r m)) (material_slots obj)\<rparr>), s4)"
    and "tagged h s4 a (texture_file ''albedo'') ''sRGB''"
    and "tagged h s4 n (texture_file ''normal'') ''Non-Color''"
    and "tagged h s4 r (texture_file ''roughness'') ''Non-Color''"
    and "tagged h s4 m (texture_file ''metallic'') ''Non-Color''"
proof -
  have ta: "tagged h s1 a (texture_file ''albedo'') ''sRGB''"
    using load_texture_tagged [OF la] by simp
  have tn: "tagged h s2 n (texture_file ''normal'') ''Non-Color''"
    using load_texture_tagged [OF ln] by simp
  have tr: "tagged h s3 r (texture_file ''roughness'') ''Non-Color''"
    using load_texture_tagged [OF lr] by simp
  show tm: "tagged h s4 m (texture_file ''metallic'') ''Non-Color''"
    using load_texture_tagged [OF lm] by simp
  show ta4: "tagged h s4 a (texture_file ''albedo'') ''sRGB''"
    using ta texture_files_distinct
    by (intro load_texture_keeps_tagged [OF lm] load_texture_keeps_tagged [OF lr]
        load_texture_keeps_tagged [OF ln]) simp_all
  show tn4: "tagged h s4 n (texture_file ''normal'') ''Non-Color''"
    using tn texture_files_distinct
    by (intro load_texture_keeps_tagged [OF lm] load_texture_keeps_tagged [OF lr]) simp_all
  show tr4: "tagged h s4 r (texture_file ''roughness'') ''Non-Color''"
    using tr texture_files_distinct
    by (intro load_texture_keeps_tagged [OF lm]) simp_all
  show "process_materials h obj s =
           (Inr (obj\<lparr>material_slots := map (map_option (synthesized a n r m)) (material_slots obj)\<rparr>), s4)"
    using slots la ln lr lm process_slots_tagged [OF ta4 tn4 tr4 tm]
    by (simp add: process_materials_def seq_def ret_def)
qed

lemma process_materials_returns: "\<exists>obj' s'. process_materials h obj s = (Inr obj', s')"
proof (cases "material_slots obj = []")
  case True
  then show ?thesis by (simp add: process_materials_def ret_def)
next
  case False
  obtain a s1 where la: "load_texture h ''albedo'' ''sRGB'' s = (Inr a, s1)"
    using load_texture_returns by blast
  obtain n s2 where ln: "load_texture h ''normal'' ''Non-Color'' s1 = (Inr n, s2)"
    using load_texture_returns by blast
  obtain r s3 where lr: "load_texture h ''roughness'' ''Non-Color'' s2 = (Inr r, s3)"
    using load_texture_returns by blast
  obtain m s4 where lm: "load_texture h ''metallic'' ''Non-Color'' s3 = (Inr m, s4)"
    using load_texture_returns by blast
  from process_materials_eq(1) [OF False la ln lr lm] show ?thesis by blast
qed

lemma filter_tex_nodes:
  "ty \<noteq> ''ShaderNodeTexImage'' \<Longrightarrow> filter (\<lambda>nd. bl_idname nd = ty) (tex_nodes a loc) = []"
  by (cases a) (simp_all add: tex_nodes_def)

lemma filter_normal_nodes:
  "ty \<noteq> ''ShaderNodeTexImage'' \<Longrightarrow> ty \<noteq> ''ShaderNodeNormalMap'' \<Longrightarrow>
   filter (\<lambda>nd. bl_idname nd = ty) (normal_nodes a) = []"
  by (cases a) (simp_all add: normal_nodes_def)

lemma surface_nodes_built:
  "surface_nodes (built_tree a n r m name) =
     [(new_node ''ShaderNodeBsdfPrincipled'')\<lparr>default_value := surface_defaults name\<rparr>]"
  by (simp add: surface_nodes_def built_tree_def Let_def filter_tex_nodes filter_normal_nodes)

lemma built_tree_no_textures:
  "built_tree None None None None name =
     \<lparr>nodes =
        [(new_node ''ShaderNodeBsdfPrincipled'')\<lparr>default_value := surface_defaults name\<rparr>,
         (new_node ''ShaderNodeOutputMaterial'')\<lparr>node_location := Some (400, 0)\<rparr>,
         new_node ''ShaderNodeTexCoord'',
         (new_node ''ShaderNodeMapping'')\<lparr>vector_type := Some ''TEXTURE''\<rparr>],
      links =
        [\<lparr>from_node = 2, from_socket = Name ''UV'', to_node = 3, to_socket = Name ''Vector''\<rparr>,
         \<lparr>from_node = 0, from_socket = Name ''BSDF'', to_node = 1, to_socket = Name ''Surface''\<rparr>]\<rparr>"
  by (simp add: built_tree_def tex_nodes_def normal_nodes_def tex_links_def normal_links_def)

lemma no_textures_reading:
  "sampler_nodes (built_tree None None None None name) = []"
  "linked_surface_inputs (built_tree None None None None name) = []"
  "map node_image (nodes (built_tree None None None None name)) = [None, None, None, None]"
  by (simp_all add: built_tree_no_textures sampler_nodes_def linked_surface_inputs_def
      eval_nat_numeral)

lemma texture_uses_built:
  "texture_uses (built_tree a n r m name) =
     (case a of None \<Rightarrow> [] | Some k \<Rightarrow> [(k, ''ShaderNodeBsdfPrincipled'', Name ''Base Color'')])
     @ (case n of None \<Rightarrow> [] | Some k \<Rightarrow> [(k, ''ShaderNodeNormalMap'', Name ''Color'')])
     @ (case r of None \<Rightarrow> [] | Some k \<Rightarrow> [(k, ''ShaderNodeBsdfPrincipled'', Name ''Roughness'')])
     @ (case m of None \<Rightarrow> [] | Some k \<Rightarrow> [(k, ''ShaderNodeBsdfPrincipled'', Name ''Metallic'')])"
  by (cases a; cases n; cases r; cases m)
     (simp_all add: texture_uses_def built_tree_def tex_nodes_def normal_nodes_def
        tex_links_def normal_links_def eval_nat_numeral)

lemma spells_startswith:
  assumes "\<forall>c\<in>set w. lower_char c = c \<and> lower_char (ascii_upper c) = c"
  shows "spells_any_case ds w \<Longrightarrow> startswith (lower ds) w"
  using assms
  by (induction ds w rule: spells_any_case.induct) (auto simp: lower_def)

lemma contains_str_in:
  assumes "\<forall>c\<in>set w. lower_char c = c \<and> lower_char (ascii_upper c) = c"
  shows "contains_any_case w nm \<Longrightarrow> str_in w (lower nm)"
proof (induction nm)
  case Nil
  then show ?case by (simp add: lower_def)
next
  case (Cons d ds)
  from Cons.prems have "spells_any_case (d # ds) w \<or> contains_any_case w ds" by simp
  then show ?case
  proof
    assume "spells_any_case (d # ds) w"
    from spells_startswith [OF assms this] show ?thesis by (simp add: lower_def)
  next
    assume "contains_any_case w ds"
    from Cons.IH [OF this] show ?thesis by (simp add: lower_def)
  qed
qed

lemma gold_letters:
  "\<forall>c\<in>set ''gold''. lower_char c = c \<and> lower_char (ascii_upper c) = c"
  by code_simp

lemma gold_in_lower: "contains_any_case ''gold'' nm \<Longrightarrow> str_in ''gold'' (lower nm)"
  by (rule contains_str_in [OF gold_letters])

lemma surface_defaults_gold:
  assumes "str_in ''gold'' name"
  shows "surface_defaults name (Name ''Metallic'') = Some 1.0"
    and "surface_defaults name (Name ''Roughness'') = Some 0.2"
    and "surface_defaults name (Name ''Roughness'') \<noteq> Some 0.1"
  using assms by (simp_all add: surface_defaults_def)

lemma processed_slot:
  assumes "material_slots obj \<noteq> []"
    and "load_texture h ''albedo'' ''sRGB'' s = (Inr a, s1)"
    and "load_texture h ''normal'' ''Non-Color'' s1 = (Inr n, s2)"
    and "load_texture h ''roughness'' ''Non-Color'' s2 = (Inr r, s3)"
    and "load_texture h ''metallic'' ''Non-Color'' s3 = (Inr m, s4)"
    and "process_materials h obj s = (Inr obj', s')"
    and "i < length (material_slots obj)"
  shows "material_slots obj' ! i = map_option (synthesized a n r m) (material_slots obj ! i)"
    and "s' = s4"
  using process_materials_eq(1) [OF assms(1-5)] assms(6,7) by auto

lemma process_materials_run:
  obtains (empty) "material_slots obj = []" "process_materials h obj s = (Inr obj, s)"
  | (slots) a n r m s1 s2 s3 s4 where "material_slots obj \<noteq> []"
      "load_texture h ''albedo'' ''sRGB'' s = (Inr a, s1)"
      "load_texture h ''normal'' ''Non-Color'' s1 = (Inr n, s2)"
      "load_texture h ''roughness'' ''Non-Color'' s2 = (Inr r, s3)"
      "load_texture h ''metallic'' ''Non-Color'' s3 = (Inr m, s4)"
      "process_materials h obj s =
         (Inr (obj\<lparr>material_slots := map (map_option (synthesized a n r m)) (material_slots obj)\<rparr>), s4)"
      "tagged h s4 a (texture_file ''albedo'') ''sRGB''"
      "tagged h s4 n (texture_file ''normal'') ''Non-Color''"
      "tagged h s4 r (texture_file ''roughness'') ''Non-Color''"
      "tagged h s4 m (texture_file ''metallic'') ''Non-Color''"
proof (cases "material_slots obj = []")
  case True
  then show ?thesis using empty by (simp add: process_materials_def ret_def)
next
  case False
  obtain a s1 where la: "load_texture h ''albedo'' ''sRGB'' s = (Inr a, s1)"
    using load_texture_returns by blast
  obtain n s2 where ln: "load_texture h ''normal'' ''Non-Color'' s1 = (Inr n, s2)"
    using load_texture_returns by blast
  obtain r s3 where lr: "load_texture h ''roughness'' ''Non-Color'' s2 = (Inr r, s3)"
    using load_texture_returns by blast
  obtain m s4 where lm: "load_texture h ''metallic'' ''Non-Color'' s3 = (Inr m, s4)"
    using load_texture_returns by blast
  from process_materials_eq [OF False la ln lr lm] False la ln lr lm show ?thesis
    by (intro slots)
qed

lemma synthesized_facts:
  "mat_name (synthesized a n r m mat) = mat_name mat"
  "use_nodes (synthesized a n r m mat)"
  "surface_nodes (mat_node_tree (synthesized a n r m mat)) =
     [(new_node ''ShaderNodeBsdfPrincipled'')
        \<lparr>default_value := surface_defaults (lower (mat_name mat))\<rparr>]"
  by (simp_all add: synthesized_def surface_nodes_built)

lemma synthesized_output_link:
  "\<lparr>from_node = 0, from_socket = Name ''BSDF'', to_node = Suc 0, to_socket = Name ''Surface''\<rparr>
     \<in> set (links (mat_node_tree (synthesized a n r m mat)))"
  by (simp add: synthesized_def built_tree_def Let_def)

lemma lower_char_letter:
  assumes "97 \<le> (of_char c :: nat)" "(of_char c :: nat) \<le> 122"
  shows "lower_char d = c \<longleftrightarrow> d = c \<or> d = ascii_upper c"
proof -
  define k where "k = (of_char c :: nat)"
  define n where "n = (of_char d :: nat)"
  have k: "97 \<le> k" "k \<le> 122" using assms by (simp_all add: k_def)
  have c: "char_of k = c" by (simp add: k_def)
  have d: "char_of n = d" by (simp add: n_def)
  have up: "ascii_upper c = char_of (k - 32)"
    using assms by (simp add: ascii_upper_def k_def Let_def)
  have lc: "lower_char d =
      (if (65 \<le> n \<and> n \<le> 90) \<or> (192 \<le> n \<and> n \<le> 222 \<and> n \<noteq> 215)
       then char_of (n + 32) else d)"
    by (simp add: lower_char_def n_def Let_def)
  show ?thesis
  proof
    assume l: "lower_char d = c"
    show "d = c \<or> d = ascii_upper c"
    proof (cases "(65 \<le> n \<and> n \<le> 90) \<or> (192 \<le> n \<and> n \<le> 222 \<and> n \<noteq> 215)")
      case True
      with l lc have "char_of (n + 32) = c" by (simp only: if_True)
      then have "(of_char (char_of (n + 32)) :: nat) = k" by (simp only: k_def)
      then have "(n + 32) mod 256 = k" by simp
      moreover from True have "n + 32 < 256" by auto
      ultimately have "n + 32 = k" by simp
      then have "k - 32 = n" by simp
      with d up show ?thesis by simp
    next
      case False
      with l lc have "d = c" by (simp only: if_False)
      then show ?thesis ..
    qed
  next
    assume "d = c \<or> d = ascii_upper c"
    then show "lower_char d = c"
    proof
      assume "d = c"
      with k have "n = k" "\<not> ((65 \<le> k \<and> k \<le> 90) \<or> (192 \<le> k \<and> k \<le> 222 \<and> k \<noteq> 215))"
        by (simp_all add: n_def k_def)
      with lc \<open>d = c\<close> show ?thesis by (simp only: if_False)
    next
      assume "d = ascii_upper c"
      with up have dd: "d = char_of (k - 32)" by simp
      have "(of_char (char_of (k - 32)) :: nat) = (k - 32) mod 256" by simp
      also from k have "\<dots> = k - 32" by simp
      finally have n: "n = k - 32" by (simp only: dd n_def)
      from k have "65 \<le> k - 32" "k - 32 \<le> 90" "k - 32 + 32 = k" by simp_all
      with n c lc show ?thesis by simp
    qed
  qed
qed

lemma spells_iff_startswith:
  assumes "\<forall>c\<in>set w. 97 \<le> (of_char c :: nat) \<and> (of_char c :: nat) \<le> 122"
  shows "spells_any_case ds w \<longleftrightarrow> startswith (lower ds) w"
  using assms
proof (induction ds w rule: spells_any_case.induct)
  case (3 d ds c cs)
  then have "lower_char d = c \<longleftrightarrow> d = c \<or> d = ascii_upper c"
    by (intro lower_char_letter) simp_all
  with 3 show ?case by (auto simp: lower_def)
qed (simp_all add: lower_def)

lemma contains_iff_str_in:
  assumes "\<forall>c\<in>set w. 97 \<le> (of_char c :: nat) \<and> (of_char c :: nat) \<le> 122"
  shows "contains_any_case w nm \<longleftrightarrow> str_in w (lower nm)"
proof (induction nm)
  case Nil
  show ?case by (simp add: lower_def)
next
  case (Cons d ds)
  from spells_iff_startswith [OF assms, of "d # ds"] Cons show ?case
    by (simp add: lower_def)
qed

lemma rule_words:
  "contains_any_case ''gold'' nm \<longleftrightarrow> str_in ''gold'' (lower nm)"
  "contains_any_case ''silver'' nm \<longleftrightarrow> str_in ''silver'' (lower nm)"
  "contains_any_case ''metal'' nm \<longleftrightarrow> str_in ''metal'' (lower nm)"
  "contains_any_case ''diamond'' nm \<longleftrightarrow> str_in ''diamond'' (lower nm)"
  "contains_any_case ''gem'' nm \<longleftrightarrow> str_in ''gem'' (lower nm)"
  by (rule contains_iff_str_in, simp)+

lemma classify_surface_defaults:
  "(k, v) \<in> set (classify nm) \<Longrightarrow> surface_defaults (lower nm) (Name k) = Some v"
  by (auto simp: classify_def rule_table_def default_rule_def rule_words surface_defaults_def
      split: if_splits)

lemma unavailable_loads:
  assumes "\<not> available h s ''albedo'' ''sRGB''" "\<not> available h s ''normal'' ''Non-Color''"
    "\<not> available h s ''roughness'' ''Non-Color''" "\<not> available h s ''metallic'' ''Non-Color''"
    and la: "load_texture h ''albedo'' ''sRGB'' s = (Inr a, s1)"
    and ln: "load_texture h ''normal'' ''Non-Color'' s1 = (Inr n, s2)"
    and lr: "load_texture h ''roughness'' ''Non-Color'' s2 = (Inr r, s3)"
    and lm: "load_texture h ''metallic'' ''Non-Color'' s3 = (Inr m, s4)"
  shows "a = None" "n = None" "r = None" "m = None"
proof -
  note d = texture_files_distinct
  show "a = None" using load_texture_available [OF la] assms(1) by simp
  have "available h s1 ''normal'' ''Non-Color'' = available h s ''normal'' ''Non-Color''"
    using d by (intro load_texture_keeps_available [OF la]) simp
  then show "n = None" using load_texture_available [OF ln] assms(2) by simp
  have "available h s2 ''roughness'' ''Non-Color'' = available h s1 ''roughness'' ''Non-Color''"
    using d by (intro load_texture_keeps_available [OF ln]) simp
  moreover have "available h s1 ''roughness'' ''Non-Color'' = available h s ''roughness'' ''Non-Color''"
    using d by (intro load_texture_keeps_available [OF la]) simp
  ultimately show "r = None" using load_texture_available [OF lr] assms(3) by simp
  have "available h s3 ''metallic'' ''Non-Color'' = available h s2 ''metallic'' ''Non-Color''"
    using d by (intro load_texture_keeps_available [OF lr]) simp
  moreover have "available h s2 ''metallic'' ''Non-Color'' = available h s1 ''metallic'' ''Non-Color''"
    using d by (intro load_texture_keeps_available [OF ln]) simp
  moreover have "available h s1 ''metallic'' ''Non-Color'' = available h s ''metallic'' ''Non-Color''"
    using d by (intro load_texture_keeps_available [OF la]) simp
  ultimately show "m = None" using load_texture_available [OF lm] assms(4) by simp
qed

lemma texture_uses_tagged:
  assumes "tagged h s a pa ''sRGB''" "tagged h s n pn ''Non-Color''"
    "tagged h s r pr ''Non-Color''" "tagged h s m pm ''Non-Color''"
    and "(k, ty, inp) \<in> set (texture_uses (built_tree a n r m name))"
  shows "k < length (images s)
       \<and> (\<exists>c. channel_of ty inp = Some c \<and> colorspace (images s ! k) = declared_colorspace c)"
  using assms
  by (auto simp: texture_uses_built tagged_def channel_of_def split: option.splits)

lemma load_environment_eq:
  "load_environment h p e t s
   = (if panorama_loads h s p
      then (Inr (set_image e (Some (length (images s))) t),
            s\<lparr>images := images s @ [\<lparr>filepath = p, colorspace = ''Filmic sRGB''\<rparr>]\<rparr>)
      else (Inr (set_color e (0.05, 0.05, 0.05, 1.0) (set_image e None t)),
            (if p \<in> files s \<and> image_loadable h p
             then s\<lparr>images := images s @ [\<lparr>filepath = p, colorspace = default_colorspace h p\<rparr>]\<rparr>
             else s)\<lparr>stdout := stdout s @ [Warning_HDRI p]\<rparr>))"
  by (auto simp: load_environment_def run_defs images_load_def set_colorspace_def panorama_loads_def)


lemma process_materials_frame:
  assumes "process_materials h ob s = (r, s')"
  shows "\<exists>ob'. r = Inr ob' \<and> ob' = ob\<lparr>material_slots := material_slots ob'\<rparr>"
    and "objects s' = objects s" "trace s' = trace s" "files s' = files s" "world s' = world s"
proof -
  show "\<exists>ob'. r = Inr ob' \<and> ob' = ob\<lparr>material_slots := material_slots ob'\<rparr>"
    using assms by (cases rule: process_materials_run [of ob h s]) auto
  show "objects s' = objects s" "trace s' = trace s" "files s' = files s" "world s' = world s"
    using assms
    by (cases rule: process_materials_run [of ob h s];
        auto simp: load_texture_frame)+
qed

lemma normalize_mesh_run:
  assumes i: "i < length (objects s)"
  obtains ob' sm where
    "process_materials h
       ((objects s ! i)\<lparr>selected := True, rotation_euler := (0, 0, 0), obj_scale := (1, 1, 1),
                         location := (0, 0, 0)\<rparr>)
       (s\<lparr>objects := (objects s)[i := (objects s ! i)\<lparr>selected := True,
                         rotation_euler := (0, 0, 0), obj_scale := (1, 1, 1), location := (0, 0, 0)\<rparr>],
          trace := trace s @ take 8 (mesh_events (obj_name (objects s ! i)) False)\<rparr>)
       = (Inr ob', sm)"
    "normalize_mesh h i s =
       (Inr (),
        sm\<lparr>trace := trace s @ mesh_events (obj_name (objects s ! i)) (polygons (objects s ! i) \<noteq> []),
           objects := (objects s)[i :=
             (if polygons (objects s ! i) \<noteq> []
              then ob'\<lparr>polygons := map (\<lambda>_. True) (polygons (objects s ! i)),
                       use_auto_smooth := True, auto_smooth_angle := 1.0472\<rparr>
              else ob')\<lparr>selected := False\<rparr>]\<rparr>)"
proof -
  let ?ob6 = "(objects s ! i)\<lparr>selected := True, rotation_euler := (0, 0, 0), obj_scale := (1, 1, 1),
                         location := (0, 0, 0)\<rparr>"
  let ?s6 = "s\<lparr>objects := (objects s)[i := ?ob6],
          trace := trace s @ take 8 (mesh_events (obj_name (objects s ! i)) False)\<rparr>"
  obtain r sm where pm: "process_materials h ?ob6 ?s6 = (r, sm)" by (cases "process_materials h ?ob6 ?s6")
  from process_materials_frame [OF pm] obtain ob' where r: "r = Inr ob'"
    and ob': "ob' = ?ob6\<lparr>material_slots := material_slots ob'\<rparr>"
    and fr: "objects sm = objects ?s6" "trace sm = trace ?s6"
    by auto
  have pm': "process_materials h ?ob6 ?s6 = (Inr ob', sm)" using pm r by simp
  have pol: "polygons ob' = polygons (objects s ! i)" by (subst ob') simp
  have nm: "normalize_mesh h i s = (Inr (),
        sm\<lparr>trace := trace s @ mesh_events (obj_name (objects s ! i)) (polygons (objects s ! i) \<noteq> []),
           objects := (objects s)[i :=
             (if polygons (objects s ! i) \<noteq> []
              then ob'\<lparr>polygons := map (\<lambda>_. True) (polygons (objects s ! i)),
                       use_auto_smooth := True, auto_smooth_angle := 1.0472\<rparr>
              else ob')\<lparr>selected := False\<rparr>]\<rparr>)"
    using i pm' fr pol
    by (simp add: normalize_mesh_def seq_def ret_def step_def emit_def update_object_def
        process_materials_of_def transform_apply_def origin_set_def shade_smooth_def mesh_events_def
        Let_def)
  show ?thesis by (rule that [OF pm' nm])
qed

lemma normalize_mesh_result:
  assumes i: "i < length (objects s)"
  shows "\<exists>s'. normalize_mesh h i s = (Inr (), s')
    \<and> trace s' = trace s @ mesh_events (obj_name (objects s ! i)) (polygons (objects s ! i) \<noteq> [])
    \<and> length (objects s') = length (objects s)
    \<and> (\<forall>j. j \<noteq> i \<longrightarrow> objects s' ! j = objects s ! j)
    \<and> obj_name (objects s' ! i) = obj_name (objects s ! i)
    \<and> obj_type (objects s' ! i) = obj_type (objects s ! i)
    \<and> obj_scale (objects s' ! i) = (1, 1, 1)
    \<and> rotation_euler (objects s' ! i) = (0, 0, 0)
    \<and> location (objects s' ! i) = (0, 0, 0)
    \<and> selected (objects s' ! i) = False
    \<and> polygons (objects s' ! i) = map (\<lambda>_. True) (polygons (objects s ! i))
    \<and> (if polygons (objects s ! i) = []
        then use_auto_smooth (objects s' ! i) = use_auto_smooth (objects s ! i)
           \<and> auto_smooth_angle (objects s' ! i) = auto_smooth_angle (objects s ! i)
        else use_auto_smooth (objects s' ! i) \<and> auto_smooth_angle (objects s' ! i) = 1.0472)
    \<and> files s' = files s \<and> world s' = world s"
proof -
  let ?ob6 = "(objects s ! i)\<lparr>selected := True, rotation_euler := (0, 0, 0), obj_scale := (1, 1, 1),
                         location := (0, 0, 0)\<rparr>"
  obtain ob' sm where pm: "process_materials h ?ob6
       (s\<lparr>objects := (objects s)[i := ?ob6],
          trace := trace s @ take 8 (mesh_events (obj_name (objects s ! i)) False)\<rparr>)
       = (Inr ob', sm)"
    and nm: "normalize_mesh h i s =
       (Inr (),
        sm\<lparr>trace := trace s @ mesh_events (obj_name (objects s ! i)) (polygons (objects s ! i) \<noteq> []),
           objects := (objects s)[i :=
             (if polygons (objects s ! i) \<noteq> []
              then ob'\<lparr>polygons := map (\<lambda>_. True) (polygons (objects s ! i)),
                       use_auto_smooth := True, auto_smooth_angle := 1.0472\<rparr>
              else ob')\<lparr>selected := False\<rparr>]\<rparr>)"
    by (rule normalize_mesh_run [OF i])
  from process_materials_frame [OF pm]
  have ob': "ob' = ?ob6\<lparr>material_slots := material_slots ob'\<rparr>"
    and fr: "files sm = files s" "world sm = world s" by auto
  have f: "obj_name ob' = obj_name (objects s ! i)" "obj_type ob' = obj_type (objects s ! i)"
    "obj_scale ob' = (1, 1, 1)" "rotation_euler ob' = (0, 0, 0)" "location ob' = (0, 0, 0)"
    "polygons ob' = polygons (objects s ! i)"
    "use_auto_smooth ob' = use_auto_smooth (objects s ! i)"
    "auto_smooth_angle ob' = auto_smooth_angle (objects s ! i)"
    by (subst ob', simp)+
  show ?thesis
    using nm i f fr by (cases "polygons (objects s ! i) = []") simp_all
qed

lemma mesh_events_stages:
  "sorted (map stage_rank (List.map_filter stage_of (mesh_events obj b)))"
  "stages (mesh_events obj b) =
     [Imported, TransformBaked, OriginCentered, Shaded]
     @ (if b then [Smoothed] else []) @ [NormalsFixed, Done]"
  by (cases b; simp add: mesh_events_def stages_def List.map_filter_simps)+

lemma mesh_events_before:
  "before (Transform_apply obj) (Origin_set obj) (mesh_events obj b)"
  "before (Transform_apply obj) (Normals_make_consistent obj) (mesh_events obj b)"
  "before (Origin_set obj) (Normals_make_consistent obj) (mesh_events obj b)"
  by (cases b; simp add: mesh_events_def before_def)+

lemma mesh_events_no_polygons:
  "Shade_smooth obj \<notin> set (mesh_events obj False)"
  "Set_auto_smooth obj \<notin> set (mesh_events obj False)"
  "Normals_make_consistent obj \<in> set (mesh_events obj False)"
  by (simp_all add: mesh_events_def)

lemma setup_hdri_frame:
  "\<exists>s'. setup_hdri h p s = (Inr (), s')
     \<and> trace s' = trace s \<and> files s' = files s \<and> objects s' = objects s
     \<and> stdout s' = stdout s @ (if panorama_loads h s p then [] else [Warning_HDRI p])"
  by (simp add: setup_hdri_def nodes_new_def seq_def load_environment_eq)

lemmas paths = path_join_def MODELS_DIR_def OUTPUT_DIR_def TEXTURES_DIR_def PROJECT_ROOT_def

lemma main_body_missing:
  assumes "path_join MODELS_DIR (fst model @ ''.glb'') \<notin> files s"
  shows "main_body h model s =
           (Inr (), s\<lparr>stdout := stdout s @
              [Please_download (fst model) (snd model) (path_join MODELS_DIR (fst model @ ''.glb''))]\<rparr>)"
  using assms by (simp add: main_body_def print_line_def)

lemma generate_html_viewer_returns:
  "\<exists>ok s'. generate_html_viewer h name s = (Inr ok, s')
     \<and> trace s' = trace s
     \<and> stdout s' = stdout s @
          [if ok then Generated_viewer (path_join OUTPUT_DIR (name @ ''_viewer.html''))
           else Error_generating_viewer name]
     \<and> (ok \<longleftrightarrow> file_writable h (path_join OUTPUT_DIR (name @ ''_viewer.html'')))"
  by (simp add: generate_html_viewer_def run_defs Let_def)

lemma main_body_raises:
  assumes "path_join MODELS_DIR (fst model @ ''.glb'') \<in> files s"
    and "process_model h (path_join MODELS_DIR (fst model @ ''.glb''))
           (path_join OUTPUT_DIR (fst model @ ''_final.glb'')) s = (Inl e, s')"
  shows "main_body h model s = (Inl e, s')"
  using assms by (simp add: main_body_def seq_def Let_def)

lemma for_each_raises:
  "f x s = (Inl e, s') \<Longrightarrow> for_each f (x # xs) s = (Inl e, s')"
  by (simp add: seq_def)

lemma for_each_normalize_mesh:
  assumes "\<forall>i\<in>set ids. i < length (objects s)"
  shows "\<exists>s'. for_each (normalize_mesh h) ids s = (Inr (), s')
    \<and> trace s' = trace s @
          concat (map (\<lambda>i. mesh_events (obj_name (objects s ! i)) (polygons (objects s ! i) \<noteq> [])) ids)
    \<and> length (objects s') = length (objects s)
    \<and> (\<forall>j. obj_name (objects s' ! j) = obj_name (objects s ! j)
           \<and> (polygons (objects s' ! j) = [] \<longleftrightarrow> polygons (objects s ! j) = []))
    \<and> (\<forall>j. j \<notin> set ids \<longrightarrow> objects s' ! j = objects s ! j)
    \<and> (\<forall>i\<in>set ids. obj_scale (objects s' ! i) = (1, 1, 1)
           \<and> rotation_euler (objects s' ! i) = (0, 0, 0) \<and> location (objects s' ! i) = (0, 0, 0))
    \<and> files s' = files s \<and> world s' = world s"
  using assms
proof (induction ids arbitrary: s)
  case Nil
  show ?case by (simp add: ret_def)
next
  case (Cons i ids)
  then have i: "i < length (objects s)" by simp
  from normalize_mesh_result [OF i, of h] obtain s1 where
    r1: "normalize_mesh h i s = (Inr (), s1)"
    and t1: "trace s1 = trace s @ mesh_events (obj_name (objects s ! i)) (polygons (objects s ! i) \<noteq> [])"
    and l1: "length (objects s1) = length (objects s)"
    and o1: "\<forall>j. j \<noteq> i \<longrightarrow> objects s1 ! j = objects s ! j"
    and n1: "obj_name (objects s1 ! i) = obj_name (objects s ! i)"
    and f1: "obj_scale (objects s1 ! i) = (1, 1, 1)" "rotation_euler (objects s1 ! i) = (0, 0, 0)"
      "location (objects s1 ! i) = (0, 0, 0)"
    and p1: "polygons (objects s1 ! i) = map (\<lambda>_. True) (polygons (objects s ! i))"
    and w1: "files s1 = files s" "world s1 = world s"
    by blast
  have same: "obj_name (objects s1 ! j) = obj_name (objects s ! j)
           \<and> (polygons (objects s1 ! j) = [] \<longleftrightarrow> polygons (objects s ! j) = [])" for j
    using o1 n1 p1 by (cases "j = i") simp_all
  from Cons.prems l1 have "\<forall>k\<in>set ids. k < length (objects s1)" by simp
  from Cons.IH [OF this] obtain s' where
    r: "for_each (normalize_mesh h) ids s1 = (Inr (), s')"
    and t: "trace s' = trace s1 @
          concat (map (\<lambda>i. mesh_events (obj_name (objects s1 ! i)) (polygons (objects s1 ! i) \<noteq> [])) ids)"
    and l: "length (objects s') = length (objects s1)"
    and nm: "\<forall>j. obj_name (objects s' ! j) = obj_name (objects s1 ! j)
           \<and> (polygons (objects s' ! j) = [] \<longleftrightarrow> polygons (objects s1 ! j) = [])"
    and keep: "\<forall>j. j \<notin> set ids \<longrightarrow> objects s' ! j = objects s1 ! j"
    and f: "\<forall>i\<in>set ids. obj_scale (objects s' ! i) = (1, 1, 1)
           \<and> rotation_euler (objects s' ! i) = (0, 0, 0) \<and> location (objects s' ! i) = (0, 0, 0)"
    and w: "files s' = files s1" "world s' = world s1"
    by blast
  have run: "for_each (normalize_mesh h) (i # ids) s = (Inr (), s')"
    using r1 r by (simp add: seq_def)
  have ev: "map (\<lambda>k. mesh_events (obj_name (objects s1 ! k)) (polygons (objects s1 ! k) \<noteq> [])) ids
      = map (\<lambda>k. mesh_events (obj_name (objects s ! k)) (polygons (objects s ! k) \<noteq> [])) ids"
    using same by simp
  have tr: "trace s' = trace s @
      concat (map (\<lambda>k. mesh_events (obj_name (objects s ! k)) (polygons (objects s ! k) \<noteq> [])) (i # ids))"
    using t t1 ev by simp
  have names: "\<forall>j. obj_name (objects s' ! j) = obj_name (objects s ! j)
           \<and> (polygons (objects s' ! j) = [] \<longleftrightarrow> polygons (objects s ! j) = [])"
    using nm same by simp
  have kept: "\<forall>j. j \<notin> set (i # ids) \<longrightarrow> objects s' ! j = objects s ! j"
    using keep o1 by simp
  have idn: "obj_scale (objects s' ! i) = (1, 1, 1)
           \<and> rotation_euler (objects s' ! i) = (0, 0, 0) \<and> location (objects s' ! i) = (0, 0, 0)"
  proof (cases "i \<in> set ids")
    case True
    with f show ?thesis by blast
  next
    case False
    with keep have "objects s' ! i = objects s1 ! i" by simp
    with f1 show ?thesis by simp
  qed
  have all: "\<forall>k\<in>set (i # ids). obj_scale (objects s' ! k) = (1, 1, 1)
           \<and> rotation_euler (objects s' ! k) = (0, 0, 0) \<and> location (objects s' ! k) = (0, 0, 0)"
    using idn f by simp
  show ?case
    apply (rule exI [of _ s'])
    using run tr l l1 names kept all w w1 by (simp only:) simp
qed

lemma loads_available:
  assumes la: "load_texture h ''albedo'' ''sRGB'' s = (Inr a, s1)"
    and ln: "load_texture h ''normal'' ''Non-Color'' s1 = (Inr n, s2)"
    and lr: "load_texture h ''roughness'' ''Non-Color'' s2 = (Inr r, s3)"
    and lm: "load_texture h ''metallic'' ''Non-Color'' s3 = (Inr m, s4)"
  shows "a \<noteq> None \<longleftrightarrow> available h s ''albedo'' ''sRGB''"
    and "n \<noteq> None \<longleftrightarrow> available h s ''normal'' ''Non-Color''"
    and "r \<noteq> None \<longleftrightarrow> available h s ''roughness'' ''Non-Color''"
    and "m \<noteq> None \<longleftrightarrow> available h s ''metallic'' ''Non-Color''"
proof -
  note d = texture_files_distinct
  show "a \<noteq> None \<longleftrightarrow> available h s ''albedo'' ''sRGB''"
    using load_texture_available [OF la] by simp
  have "available h s1 ''normal'' ''Non-Color'' = available h s ''normal'' ''Non-Color''"
    using d by (intro load_texture_keeps_available [OF la]) simp
  then show "n \<noteq> None \<longleftrightarrow> available h s ''normal'' ''Non-Color''"
    using load_texture_available [OF ln] by simp
  have "available h s2 ''roughness'' ''Non-Color'' = available h s1 ''roughness'' ''Non-Color''"
    using d by (intro load_texture_keeps_available [OF ln]) simp
  moreover have "available h s1 ''roughness'' ''Non-Color'' = available h s ''roughness'' ''Non-Color''"
    using d by (intro load_texture_keeps_available [OF la]) simp
  ultimately show "r \<noteq> None \<longleftrightarrow> available h s ''roughness'' ''Non-Color''"
    using load_texture_available [OF lr] by simp
  have "available h s3 ''metallic'' ''Non-Color'' = available h s2 ''metallic'' ''Non-Color''"
    using d by (intro load_texture_keeps_available [OF lr]) simp
  moreover have "available h s2 ''metallic'' ''Non-Color'' = available h s1 ''metallic'' ''Non-Color''"
    using d by (intro load_texture_keeps_available [OF ln]) simp
  moreover have "available h s1 ''metallic'' ''Non-Color'' = available h s ''metallic'' ''Non-Color''"
    using d by (intro load_texture_keeps_available [OF la]) simp
  ultimately show "m \<noteq> None \<longleftrightarrow> available h s ''metallic'' ''Non-Color''"
    using load_texture_available [OF lm] by simp
qed

lemma base_color_only_reading:
  "length (sampler_nodes (built_tree (Some k) None None None name)) = 1"
  "linked_surface_inputs (built_tree (Some k) None None None name) = [Name ''Base Color'']"
  "texture_uses (built_tree (Some k) None None None name)
     = [(k, ''ShaderNodeBsdfPrincipled'', Name ''Base Color'')]"
  by (simp_all add: built_tree_def tex_nodes_def normal_nodes_def tex_links_def normal_links_def
      sampler_nodes_def linked_surface_inputs_def texture_uses_def eval_nat_numeral)

lemma only_base_color_available:
  assumes "available h s ''albedo'' ''sRGB''" "\<not> available h s ''normal'' ''Non-Color''"
    "\<not> available h s ''roughness'' ''Non-Color''" "\<not> available h s ''metallic'' ''Non-Color''"
    and "i < length (material_slots obj)"
    and "material_slots obj ! i = Some mat"
  shows "\<exists>obj' s' mat' k.
           process_materials h obj s = (Inr obj', s')
         \<and> material_slots obj' ! i = Some mat'
         \<and> length (sampler_nodes (mat_node_tree mat')) = 1
         \<and> linked_surface_inputs (mat_node_tree mat') = [Name ''Base Color'']
         \<and> texture_uses (mat_node_tree mat') = [(k, ''ShaderNodeBsdfPrincipled'', Name ''Base Color'')]
         \<and> k < length (images s') \<and> colorspace (images s' ! k) = ''sRGB''"
proof (cases rule: process_materials_run [of obj h s])
  case empty
  with assms(5) show ?thesis by simp
next
  case (slots a n r m s1 s2 s3 s4)
  note av = loads_available [OF slots(2-5)]
  from av assms(1-4) obtain k where a: "a = Some k" and none: "n = None" "r = None" "m = None"
    by auto
  let ?obj' = "obj\<lparr>material_slots := map (map_option (synthesized a n r m)) (material_slots obj)\<rparr>"
  let ?mat' = "synthesized (Some k) None None None mat"
  have slot: "material_slots ?obj' ! i = Some ?mat'"
    using assms(5,6) a none by simp
  have tree: "mat_node_tree ?mat' = built_tree (Some k) None None None (lower (mat_name mat))"
    by (simp add: synthesized_def)
  from slots(7) a have tag: "k < length (images s4)" "colorspace (images s4 ! k) = ''sRGB''"
    by (simp_all add: tagged_def)
  show ?thesis
    apply (rule exI [of _ ?obj'], rule exI [of _ s4], rule exI [of _ ?mat'], rule exI [of _ k])
    using slots(6) slot tag
    by (simp only: tree base_color_only_reading)
qed

section \<open>The claims\<close>

text \<open>
  C1. A material whose name contains "gold" in any letter case gets, on its surface
  node, Metallic 1.0 and Roughness 0.2, whichever slot it is in and whatever the host
  and the state are; \<open>process_materials\<close> returns. When the name also contains
  "metal" the values are still those of gold, not the 0.1 roughness of the silver and
  metal rule: the test for gold stands first.
\<close>

theorem gold_rule_first:
  assumes "i < length (material_slots obj)"
    and "material_slots obj ! i = Some mat"
    and "contains_any_case ''gold'' (mat_name mat)"
  shows "\<exists>obj' s' mat' nd.
           process_materials h obj s = (Inr obj', s')
         \<and> material_slots obj' ! i = Some mat'
         \<and> surface_nodes (mat_node_tree mat') = [nd]
         \<and> default_value nd (Name ''Metallic'') = Some 1.0
         \<and> default_value nd (Name ''Roughness'') = Some 0.2
         \<and> (contains_any_case ''metal'' (mat_name mat)
              \<longrightarrow> default_value nd (Name ''Roughness'') \<noteq> Some 0.1)"
proof -
  from assms(1) have ne: "material_slots obj \<noteq> []" by auto
  obtain a s1 where la: "load_texture h ''albedo'' ''sRGB'' s = (Inr a, s1)"
    using load_texture_returns by blast
  obtain n s2 where ln: "load_texture h ''normal'' ''Non-Color'' s1 = (Inr n, s2)"
    using load_texture_returns by blast
  obtain r s3 where lr: "load_texture h ''roughness'' ''Non-Color'' s2 = (Inr r, s3)"
    using load_texture_returns by blast
  obtain m s4 where lm: "load_texture h ''metallic'' ''Non-Color'' s3 = (Inr m, s4)"
    using load_texture_returns by blast
  note run = process_materials_eq(1) [OF ne la ln lr lm]
  let ?mat' = "synthesized a n r m mat"
  let ?nd = "(new_node ''ShaderNodeBsdfPrincipled'')
               \<lparr>default_value := surface_defaults (lower (mat_name mat))\<rparr>"
  have slot: "material_slots
      (obj\<lparr>material_slots := map (map_option (synthesized a n r m)) (material_slots obj)\<rparr>) ! i
      = Some ?mat'"
    using assms(1,2) by simp
  have surf: "surface_nodes (mat_node_tree ?mat') = [?nd]"
    by (simp add: synthesized_def surface_nodes_built)
  note gold = surface_defaults_gold [OF gold_in_lower [OF assms(3)]]
  show ?thesis
    apply (rule exI [of _ "obj\<lparr>material_slots :=
             map (map_option (synthesized a n r m)) (material_slots obj)\<rparr>"])
    apply (rule exI [of _ s4], rule exI [of _ ?mat'], rule exI [of _ ?nd])
    using run slot surf gold by simp
qed

theorem gold_rule_first_witness:
  "contains_any_case ''gold'' ''Rose_GOLD Metal'' \<and> contains_any_case ''metal'' ''Rose_GOLD Metal''
   \<and> (\<exists>obj' s' mat' nd.
           process_materials host_ok ring state_textures = (Inr obj', s')
         \<and> material_slots obj' ! 0 = Some mat'
         \<and> surface_nodes (mat_node_tree mat') = [nd]
         \<and> default_value nd (Name ''Metallic'') = Some 1.0
         \<and> default_value nd (Name ''Roughness'') = Some 0.2
         \<and> default_value nd (Name ''Roughness'') \<noteq> Some 0.1)"
proof -
  let ?mat = "\<lparr>mat_name = ''Rose_GOLD Metal'', use_nodes = False, mat_node_tree = empty_tree\<rparr>"
  have g: "contains_any_case ''gold'' ''Rose_GOLD Metal''" by code_simp
  have m: "contains_any_case ''metal'' ''Rose_GOLD Metal''" by code_simp
  have len: "0 < length (material_slots ring)" by (simp add: ring_def)
  have slot: "material_slots ring ! 0 = Some ?mat" by (simp add: ring_def)
  have g': "contains_any_case ''gold'' (mat_name ?mat)" using g by (simp only: material.simps)
  have m': "contains_any_case ''metal'' (mat_name ?mat)" using m by (simp only: material.simps)
  from gold_rule_first [OF len slot g', of host_ok state_textures] m'
  have "\<exists>obj' s' mat' nd.
           process_materials host_ok ring state_textures = (Inr obj', s')
         \<and> material_slots obj' ! 0 = Some mat'
         \<and> surface_nodes (mat_node_tree mat') = [nd]
         \<and> default_value nd (Name ''Metallic'') = Some 1.0
         \<and> default_value nd (Name ''Roughness'') = Some 0.2
         \<and> default_value nd (Name ''Roughness'') \<noteq> Some 0.1"
    by blast
  with g m show ?thesis by (intro conjI)
qed

text \<open>
  C10. \<open>process_materials\<close> returns for every object, host and state. It changes
  nothing of the object but its material slots; a slot with no material stays empty,
  and every slot that holds a material holds afterwards the same-named material with
  its node tree rebuilt: nodes switched on, one surface node, wired to the output.
\<close>

theorem null_slots_skipped:
  "\<exists>obj' s'.
      process_materials h obj s = (Inr obj', s')
    \<and> obj' = obj\<lparr>material_slots := material_slots obj'\<rparr>
    \<and> length (material_slots obj') = length (material_slots obj)
    \<and> (\<forall>i < length (material_slots obj).
          (material_slots obj ! i = None \<longrightarrow> material_slots obj' ! i = None)
        \<and> (\<forall>mat. material_slots obj ! i = Some mat \<longrightarrow>
              (\<exists>mat'. material_slots obj' ! i = Some mat'
                 \<and> mat_name mat' = mat_name mat \<and> use_nodes mat'
                 \<and> length (surface_nodes (mat_node_tree mat')) = 1
                 \<and> \<lparr>from_node = 0, from_socket = Name ''BSDF'',
                     to_node = 1, to_socket = Name ''Surface''\<rparr>
                      \<in> set (links (mat_node_tree mat')))))"
proof (cases rule: process_materials_run [of obj h s])
  case empty
  then show ?thesis by simp
next
  case (slots a n r m s1 s2 s3 s4)
  let ?obj' = "obj\<lparr>material_slots := map (map_option (synthesized a n r m)) (material_slots obj)\<rparr>"
  show ?thesis
    apply (rule exI [of _ ?obj'], rule exI [of _ s4])
    using slots(6) by (simp add: synthesized_facts synthesized_output_link)
qed

theorem null_slots_skipped_witness:
  "\<exists>obj' s'.
      process_materials host_ok ring state_textures = (Inr obj', s')
    \<and> length (material_slots obj') = 3
    \<and> material_slots obj' ! 1 = None
    \<and> (\<exists>mat'. material_slots obj' ! 2 = Some mat' \<and> mat_name mat' = ''Stone'' \<and> use_nodes mat'
          \<and> length (surface_nodes (mat_node_tree mat')) = 1
          \<and> \<lparr>from_node = 0, from_socket = Name ''BSDF'', to_node = 1, to_socket = Name ''Surface''\<rparr>
               \<in> set (links (mat_node_tree mat')))"
proof -
  have len: "length (material_slots ring) = 3" by (simp add: ring_def)
  have s1: "material_slots ring ! 1 = None" by (simp add: ring_def)
  have s2: "material_slots ring ! 2
      = Some \<lparr>mat_name = ''Stone'', use_nodes = False, mat_node_tree = empty_tree\<rparr>"
    by (simp add: ring_def)
  from null_slots_skipped [of host_ok ring state_textures]
  obtain obj' s' where run: "process_materials host_ok ring state_textures = (Inr obj', s')"
    and l: "length (material_slots obj') = length (material_slots ring)"
    and all: "\<forall>i < length (material_slots ring).
          (material_slots ring ! i = None \<longrightarrow> material_slots obj' ! i = None)
        \<and> (\<forall>mat. material_slots ring ! i = Some mat \<longrightarrow>
              (\<exists>mat'. material_slots obj' ! i = Some mat'
                 \<and> mat_name mat' = mat_name mat \<and> use_nodes mat'
                 \<and> length (surface_nodes (mat_node_tree mat')) = 1
                 \<and> \<lparr>from_node = 0, from_socket = Name ''BSDF'',
                     to_node = 1, to_socket = Name ''Surface''\<rparr>
                      \<in> set (links (mat_node_tree mat'))))"
    by blast
  from all len s1 have n1: "material_slots obj' ! 1 = None" by simp
  from all len have "\<forall>mat. material_slots ring ! 2 = Some mat \<longrightarrow>
              (\<exists>mat'. material_slots obj' ! 2 = Some mat'
                 \<and> mat_name mat' = mat_name mat \<and> use_nodes mat'
                 \<and> length (surface_nodes (mat_node_tree mat')) = 1
                 \<and> \<lparr>from_node = 0, from_socket = Name ''BSDF'',
                     to_node = 1, to_socket = Name ''Surface''\<rparr>
                      \<in> set (links (mat_node_tree mat')))" by simp
  with s2 have n2: "\<exists>mat'. material_slots obj' ! 2 = Some mat' \<and> mat_name mat' = ''Stone'' \<and> use_nodes mat'
          \<and> length (surface_nodes (mat_node_tree mat')) = 1
          \<and> \<lparr>from_node = 0, from_socket = Name ''BSDF'', to_node = 1, to_socket = Name ''Surface''\<rparr>
               \<in> set (links (mat_node_tree mat'))" by simp
  from run l len n1 n2 show ?thesis by auto
qed

text \<open>
  C4. When none of the four texture channels is available (each file is missing, or
  does not decode and is not loaded yet, or its colour-space name is refused), every
  material of the object gets a tree with no image-texture node and no node holding an
  image; no input of the surface node is fed by a link, and the inputs carry the values
  the rule table gives for the material's name. \<open>process_materials\<close> returns.
\<close>

theorem no_channels_no_samplers:
  assumes "\<not> available h s ''albedo'' ''sRGB''" "\<not> available h s ''normal'' ''Non-Color''"
    "\<not> available h s ''roughness'' ''Non-Color''" "\<not> available h s ''metallic'' ''Non-Color''"
    and "i < length (material_slots obj)"
    and "material_slots obj ! i = Some mat"
  shows "\<exists>obj' s' mat' nd.
           process_materials h obj s = (Inr obj', s')
         \<and> material_slots obj' ! i = Some mat'
         \<and> sampler_nodes (mat_node_tree mat') = []
         \<and> map node_image (nodes (mat_node_tree mat')) = [None, None, None, None]
         \<and> linked_surface_inputs (mat_node_tree mat') = []
         \<and> surface_nodes (mat_node_tree mat') = [nd]
         \<and> (\<forall>(k, v) \<in> set (classify (mat_name mat)). default_value nd (Name k) = Some v)"
proof (cases rule: process_materials_run [of obj h s])
  case empty
  with assms(5) show ?thesis by simp
next
  case (slots a n r m s1 s2 s3 s4)
  note none = unavailable_loads [OF assms(1-4) slots(2-5)]
  let ?obj' = "obj\<lparr>material_slots := map (map_option (synthesized a n r m)) (material_slots obj)\<rparr>"
  let ?mat' = "synthesized None None None None mat"
  let ?nd = "(new_node ''ShaderNodeBsdfPrincipled'')
               \<lparr>default_value := surface_defaults (lower (mat_name mat))\<rparr>"
  have slot: "material_slots ?obj' ! i = Some ?mat'"
    using assms(5,6) none by simp
  have tree: "mat_node_tree ?mat' = built_tree None None None None (lower (mat_name mat))"
    by (simp add: synthesized_def)
  have cl: "\<forall>(k, v) \<in> set (classify (mat_name mat)). default_value ?nd (Name k) = Some v"
    using classify_surface_defaults by auto
  show ?thesis
    apply (rule exI [of _ ?obj'], rule exI [of _ s4], rule exI [of _ ?mat'], rule exI [of _ ?nd])
    using slots(6) slot cl
    by (simp only: tree no_textures_reading surface_nodes_built)
qed

theorem no_channels_no_samplers_witness:
  "\<not> available host_ok state_empty ''albedo'' ''sRGB''
   \<and> (\<exists>obj' s' mat' nd.
           process_materials host_ok ring state_empty = (Inr obj', s')
         \<and> material_slots obj' ! 0 = Some mat'
         \<and> sampler_nodes (mat_node_tree mat') = []
         \<and> linked_surface_inputs (mat_node_tree mat') = []
         \<and> surface_nodes (mat_node_tree mat') = [nd]
         \<and> default_value nd (Name ''Metallic'') = Some 1.0
         \<and> default_value nd (Name ''Roughness'') = Some 0.2)"
proof -
  let ?mat = "\<lparr>mat_name = ''Rose_GOLD Metal'', use_nodes = False, mat_node_tree = empty_tree\<rparr>"
  have un: "\<not> available host_ok state_empty c cs" for c cs
    by (simp add: available_def state_empty_def)
  have len: "0 < length (material_slots ring)" by (simp add: ring_def)
  have slot: "material_slots ring ! 0 = Some ?mat" by (simp add: ring_def)
  have "contains_any_case ''gold'' ''Rose_GOLD Metal''" by code_simp
  then have cl: "classify (mat_name ?mat) = [(''Metallic'', 1.0), (''Roughness'', 0.2)]"
    by (simp add: classify_def rule_table_def)
  from no_channels_no_samplers [OF un un un un len slot]
  obtain obj' s' mat' nd where
    "process_materials host_ok ring state_empty = (Inr obj', s')"
    "material_slots obj' ! 0 = Some mat'"
    "sampler_nodes (mat_node_tree mat') = []"
    "linked_surface_inputs (mat_node_tree mat') = []"
    "surface_nodes (mat_node_tree mat') = [nd]"
    "\<forall>(k, v) \<in> set (classify (mat_name ?mat)). default_value nd (Name k) = Some v"
    by blast
  moreover from this(6) have "default_value nd (Name ''Metallic'') = Some 1.0"
    "default_value nd (Name ''Roughness'') = Some 0.2"
    unfolding cl by simp_all
  ultimately show ?thesis using un by blast
qed

text \<open>
  C9. In every material that \<open>process_materials\<close> has processed, every link that
  leaves a node holding an image enters one of the four channel inputs (the surface
  node's Base Color, Roughness or Metallic, or the normal-map node's Color), and in the
  state the function leaves, the image carries the tag declared for that channel: sRGB
  for the base colour, Non-Color for the other three. The function returns for every
  object, host and state; the images are those of the shared image store, so the
  statement is about their tags after all slots are done.
\<close>

theorem wired_textures_carry_declared_tag:
  "\<exists>obj' s'.
      process_materials h obj s = (Inr obj', s')
    \<and> (\<forall>slot \<in> set (material_slots obj').
         \<forall>mat. slot = Some mat \<longrightarrow>
           (\<forall>(k, ty, inp) \<in> set (texture_uses (mat_node_tree mat)).
              k < length (images s')
            \<and> (\<exists>c. channel_of ty inp = Some c
                   \<and> colorspace (images s' ! k) = declared_colorspace c)))"
proof (cases rule: process_materials_run [of obj h s])
  case empty
  then show ?thesis by simp
next
  case (slots a n r m s1 s2 s3 s4)
  let ?obj' = "obj\<lparr>material_slots := map (map_option (synthesized a n r m)) (material_slots obj)\<rparr>"
  have "k < length (images s4)
       \<and> (\<exists>c. channel_of ty inp = Some c \<and> colorspace (images s4 ! k) = declared_colorspace c)"
    if "slot \<in> set (material_slots ?obj')" "slot = Some mat"
      "(k, ty, inp) \<in> set (texture_uses (mat_node_tree mat))" for slot mat k ty inp
  proof -
    from that(1,2) have "Some mat \<in> map_option (synthesized a n r m) ` set (material_slots obj)"
      by simp
    then obtain x where "map_option (synthesized a n r m) x = Some mat" by force
    then obtain mat0 where "mat = synthesized a n r m mat0" by (cases x) auto
    then have "mat_node_tree mat = built_tree a n r m (lower (mat_name mat0))"
      by (simp add: synthesized_def)
    with that(3) texture_uses_tagged [OF slots(7-10)] show ?thesis by simp
  qed
  then show ?thesis
    apply (intro exI [of _ ?obj'] exI [of _ s4] conjI)
     apply (rule slots(6))
    by blast
qed

theorem wired_textures_carry_declared_tag_witness:
  "\<exists>obj' s' mat k.
      process_materials host_ok ring state_textures = (Inr obj', s')
    \<and> Some mat \<in> set (material_slots obj')
    \<and> (k, ''ShaderNodeBsdfPrincipled'', Name ''Base Color'') \<in> set (texture_uses (mat_node_tree mat))
    \<and> k < length (images s') \<and> colorspace (images s' ! k) = ''sRGB''"
proof (cases rule: process_materials_run [of ring host_ok state_textures])
  case empty
  then show ?thesis by (simp add: ring_def)
next
  case (slots a n r m s1 s2 s3 s4)
  let ?mat0 = "\<lparr>mat_name = ''Rose_GOLD Metal'', use_nodes = False, mat_node_tree = empty_tree\<rparr>"
  let ?mat = "synthesized a n r m ?mat0"
  have "available host_ok state_textures ''albedo'' ''sRGB''"
    by (simp add: available_def host_ok_def state_textures_def)
  with load_texture_available [OF slots(2)] obtain k where a: "a = Some k" by auto
  from wired_textures_carry_declared_tag [of host_ok ring state_textures] slots(6)
  have all: "\<forall>slot \<in> set (map (map_option (synthesized a n r m)) (material_slots ring)).
         \<forall>mat. slot = Some mat \<longrightarrow>
           (\<forall>(k, ty, inp) \<in> set (texture_uses (mat_node_tree mat)).
              k < length (images s4)
            \<and> (\<exists>c. channel_of ty inp = Some c
                   \<and> colorspace (images s4 ! k) = declared_colorspace c))"
    by simp
  have mem: "Some ?mat \<in> set (map (map_option (synthesized a n r m)) (material_slots ring))"
    by (simp add: ring_def)
  have use: "(k, ''ShaderNodeBsdfPrincipled'', Name ''Base Color'')
      \<in> set (texture_uses (mat_node_tree ?mat))"
    by (simp add: synthesized_def texture_uses_built a)
  from all mem use have "k < length (images s4)
     \<and> (\<exists>c. channel_of ''ShaderNodeBsdfPrincipled'' (Name ''Base Color'') = Some c
            \<and> colorspace (images s4 ! k) = declared_colorspace c)"
    by blast
  then have "k < length (images s4)" "colorspace (images s4 ! k) = ''sRGB''"
    by (auto simp: channel_of_def)
  with slots(6) mem use show ?thesis
    apply -
    apply (rule exI [of _ "ring\<lparr>material_slots :=
              map (map_option (synthesized a n r m)) (material_slots ring)\<rparr>"])
    apply (rule exI [of _ s4], rule exI [of _ ?mat], rule exI [of _ k])
    by simp
qed

text \<open>
  C6, as the code has it. \<open>load_texture\<close> never raises: for every host, name, colour
  space and state it returns an optional image. When the channel's file is missing it
  returns \<open>None\<close> and leaves the state as it was: nothing is printed. When the file
  is there and \<open>None\<close> comes back (the load or the tagging raised), the warning is
  the one line added to the output. An image that is returned carries the tag sRGB when
  the caller passed \<^verbatim>\<open>'sRGB'\<close> and Non-Color for any other argument, belongs to the
  channel's file, and nothing was printed. An image is returned exactly when the channel
  is available.
\<close>

theorem load_texture_contract:
  "\<exists>r s'.
      load_texture h n cs s = (Inr r, s')
    \<and> (texture_file n \<notin> files s \<longrightarrow> r = None \<and> s' = s)
    \<and> (texture_file n \<in> files s \<and> r = None \<longrightarrow> stdout s' = stdout s @ [Warning_texture n])
    \<and> (\<forall>k. r = Some k \<longrightarrow>
           k < length (images s') \<and> filepath (images s' ! k) = texture_file n
         \<and> colorspace (images s' ! k) = (if cs = ''sRGB'' then ''sRGB'' else ''Non-Color'')
         \<and> stdout s' = stdout s)
    \<and> (r \<noteq> None \<longleftrightarrow> available h s n (if cs = ''sRGB'' then ''sRGB'' else ''Non-Color''))"
proof (cases rule: load_texture_cases [where n = n and s = s and h = h and cs = cs])
  case absent
  then show ?thesis by (simp add: available_def)
next
  case (warned s1)
  then show ?thesis by simp
next
  case (existing k)
  then show ?thesis by (simp add: available_def)
next
  case fresh
  then show ?thesis by (simp add: available_def)
qed

theorem load_texture_contract_witness:
  "\<exists>k s'. load_texture host_ok ''albedo'' ''sRGB'' state_textures = (Inr (Some k), s')
      \<and> k < length (images s') \<and> filepath (images s' ! k) = texture_file ''albedo''
      \<and> colorspace (images s' ! k) = ''sRGB'' \<and> stdout s' = stdout state_textures"
proof -
  have av: "available host_ok state_textures ''albedo'' ''sRGB''"
    by (simp add: available_def host_ok_def state_textures_def)
  from load_texture_contract [of host_ok "''albedo''" "''sRGB''" state_textures]
  obtain r s' where run: "load_texture host_ok ''albedo'' ''sRGB'' state_textures = (Inr r, s')"
    and some: "\<forall>k. r = Some k \<longrightarrow>
           k < length (images s') \<and> filepath (images s' ! k) = texture_file ''albedo''
         \<and> colorspace (images s' ! k) = ''sRGB'' \<and> stdout s' = stdout state_textures"
    and iff: "r \<noteq> None \<longleftrightarrow> available host_ok state_textures ''albedo'' ''sRGB''"
    by auto
  from iff av obtain k where "r = Some k" by auto
  with run some show ?thesis by auto
qed

text \<open>
  C6 as worded fails on two counts. With the file missing, the loader returns
  \<open>None\<close> and prints no warning. And the tag is not always the caller's: asked for
  \<^verbatim>\<open>'Linear'\<close>, the loader tags the image Non-Color.
\<close>

theorem load_texture_absent_is_silent:
  "texture_file ''albedo'' \<notin> files state_empty
   \<and> load_texture host_ok ''albedo'' ''sRGB'' state_empty = (Inr None, state_empty)
   \<and> stdout state_empty = []
   \<and> (\<exists>k s'. load_texture host_ok ''albedo'' ''Linear'' state_textures = (Inr (Some k), s')
         \<and> colorspace (images s' ! k) = ''Non-Color'')"
proof -
  have a: "texture_file ''albedo'' \<notin> files state_empty" by (simp add: state_empty_def)
  have av: "available host_ok state_textures ''albedo'' ''Non-Color''"
    by (simp add: available_def host_ok_def state_textures_def)
  have "\<exists>k s'. load_texture host_ok ''albedo'' ''Linear'' state_textures = (Inr (Some k), s')
         \<and> colorspace (images s' ! k) = ''Non-Color''"
  proof (cases rule: load_texture_cases [where n = "''albedo''" and s = state_textures
        and h = host_ok and cs = "''Linear''"])
    case absent
    then show ?thesis by (simp add: state_textures_def)
  next
    case (warned s1)
    with av show ?thesis by simp
  next
    case (existing k)
    then show ?thesis by simp
  next
    case fresh
    then show ?thesis by simp
  qed
  with a load_texture_absent [OF a, of host_ok "''sRGB''"] show ?thesis
    by (simp add: state_empty_def)
qed



text \<open>
  C5. For every mesh of the scene, whatever the host and the state, the loop body
  returns and the calls it adds to the trace run through the stages in their order:
  the ranks of the stages never fall, and the stages met are Imported,
  TransformBaked, OriginCentered, Shaded, Smoothed (when the mesh has polygons),
  NormalsFixed, Done. The transform is applied before the origin is set and before
  the normals are recomputed, and the origin is set before the normals are recomputed.
\<close>

theorem mesh_stages_in_order:
  assumes "i < length (objects s)"
  shows "\<exists>s' evs.
      normalize_mesh h i s = (Inr (), s') \<and> trace s' = trace s @ evs
    \<and> sorted (map stage_rank (List.map_filter stage_of evs))
    \<and> stages evs =
         [Imported, TransformBaked, OriginCentered, Shaded]
         @ (if polygons (objects s ! i) \<noteq> [] then [Smoothed] else []) @ [NormalsFixed, Done]
    \<and> before (Transform_apply (obj_name (objects s ! i))) (Origin_set (obj_name (objects s ! i))) evs
    \<and> before (Transform_apply (obj_name (objects s ! i)))
         (Normals_make_consistent (obj_name (objects s ! i))) evs
    \<and> before (Origin_set (obj_name (objects s ! i)))
         (Normals_make_consistent (obj_name (objects s ! i))) evs"
proof -
  from normalize_mesh_result [OF assms, of h] obtain s' where
    run: "normalize_mesh h i s = (Inr (), s')"
    and tr: "trace s' = trace s @ mesh_events (obj_name (objects s ! i)) (polygons (objects s ! i) \<noteq> [])"
    by blast
  show ?thesis
    apply (rule exI [of _ s'])
    apply (rule exI [of _ "mesh_events (obj_name (objects s ! i)) (polygons (objects s ! i) \<noteq> [])"])
    using run tr by (simp only: mesh_events_stages mesh_events_before)
qed

theorem mesh_stages_in_order_witness:
  "\<exists>s' evs.
      normalize_mesh host_ok 0 state_scene = (Inr (), s') \<and> trace s' = evs
    \<and> sorted (map stage_rank (List.map_filter stage_of evs))
    \<and> stages evs = [Imported, TransformBaked, OriginCentered, Shaded, Smoothed, NormalsFixed, Done]
    \<and> before (Transform_apply ''Ring'') (Origin_set ''Ring'') evs
    \<and> before (Transform_apply ''Ring'') (Normals_make_consistent ''Ring'') evs"
proof -
  have i: "0 < length (objects state_scene)" by (simp add: state_scene_def)
  have ob: "objects state_scene ! 0 = ring" by (simp add: state_scene_def)
  have tr: "trace state_scene = []" by (simp add: state_scene_def state_textures_def state_empty_def)
  have nm: "obj_name ring = ''Ring''" "polygons ring \<noteq> []" by (simp_all add: ring_def)
  from mesh_stages_in_order [OF i, of host_ok] nm(2) show ?thesis
    unfolding ob tr nm(1) by auto
qed

text \<open>
  C3, as the code has it. For a mesh with no polygons the loop body returns, and of
  the two stages only Smoothed is skipped: no smooth-shading call is made and the
  mesh's auto-smooth settings stay as they were. The calls that recompute the normals
  stand outside the test on the polygons and are made for every mesh.
\<close>

theorem empty_mesh_skips_smoothing_only:
  assumes "i < length (objects s)" and "polygons (objects s ! i) = []"
  shows "\<exists>s' evs.
      normalize_mesh h i s = (Inr (), s') \<and> trace s' = trace s @ evs
    \<and> Smoothed \<notin> set (stages evs)
    \<and> Shade_smooth (obj_name (objects s ! i)) \<notin> set evs
    \<and> Set_auto_smooth (obj_name (objects s ! i)) \<notin> set evs
    \<and> use_auto_smooth (objects s' ! i) = use_auto_smooth (objects s ! i)
    \<and> auto_smooth_angle (objects s' ! i) = auto_smooth_angle (objects s ! i)
    \<and> polygons (objects s' ! i) = []
    \<and> NormalsFixed \<in> set (stages evs)
    \<and> Normals_make_consistent (obj_name (objects s ! i)) \<in> set evs"
proof -
  from normalize_mesh_result [OF assms(1), of h] assms(2) obtain s' where
    run: "normalize_mesh h i s = (Inr (), s')"
    and tr: "trace s' = trace s @ mesh_events (obj_name (objects s ! i)) False"
    and ob: "use_auto_smooth (objects s' ! i) = use_auto_smooth (objects s ! i)"
      "auto_smooth_angle (objects s' ! i) = auto_smooth_angle (objects s ! i)"
      "polygons (objects s' ! i) = []"
    by auto
  show ?thesis
    apply (rule exI [of _ s'])
    apply (rule exI [of _ "mesh_events (obj_name (objects s ! i)) False"])
    using run tr ob by (simp add: mesh_events_stages mesh_events_no_polygons)
qed

theorem empty_mesh_skips_smoothing_only_witness:
  "polygons (objects state_scene ! 1) = []
   \<and> (\<exists>s' evs.
      normalize_mesh host_ok 1 state_scene = (Inr (), s') \<and> trace s' = evs
    \<and> Smoothed \<notin> set (stages evs)
    \<and> Shade_smooth ''Empty'' \<notin> set evs
    \<and> use_auto_smooth (objects s' ! 1) = False
    \<and> NormalsFixed \<in> set (stages evs))"
proof -
  have i: "1 < length (objects state_scene)" by (simp add: state_scene_def)
  have ob: "objects state_scene ! 1 = empty_mesh" by (simp add: state_scene_def)
  have tr: "trace state_scene = []" by (simp add: state_scene_def state_textures_def state_empty_def)
  have nm: "obj_name empty_mesh = ''Empty''" "polygons empty_mesh = []"
    "use_auto_smooth empty_mesh = False" by (simp_all add: empty_mesh_def)
  have p: "polygons (objects state_scene ! 1) = []" by (simp add: state_scene_def empty_mesh_def)
  from empty_mesh_skips_smoothing_only [OF i p, of host_ok] p show ?thesis
    unfolding ob tr nm by auto
qed

text \<open>
  C3 as worded fails: for the second object of the sample scene, a mesh with no
  polygons, the normal recomputation is called and the stage NormalsFixed is met.
\<close>

theorem empty_mesh_normals_still_recomputed:
  "polygons (objects state_scene ! 1) = []
   \<and> Normals_make_consistent ''Empty'' \<in> set (trace (snd (normalize_mesh host_ok 1 state_scene)))
   \<and> NormalsFixed \<in> set (stages (trace (snd (normalize_mesh host_ok 1 state_scene))))"
proof -
  have i: "1 < length (objects state_scene)" by (simp add: state_scene_def)
  have ob: "objects state_scene ! 1 = empty_mesh" by (simp add: state_scene_def)
  have tr: "trace state_scene = []" by (simp add: state_scene_def state_textures_def state_empty_def)
  have nm: "obj_name empty_mesh = ''Empty''" "polygons empty_mesh = []" by (simp_all add: empty_mesh_def)
  from normalize_mesh_result [OF i, of host_ok] obtain s' where
    "normalize_mesh host_ok 1 state_scene = (Inr (), s')"
    "trace s' = mesh_events ''Empty'' False"
    unfolding ob tr nm by auto
  moreover have "polygons (objects state_scene ! 1) = []"
    by (simp add: state_scene_def empty_mesh_def)
  ultimately show ?thesis
    by (simp add: mesh_events_stages mesh_events_no_polygons)
qed

text \<open>
  C8. Run on a mesh a second time, the loop body returns again and leaves the mesh's
  transform where the first run put it: scale (1, 1, 1), rotation (0, 0, 0), location
  (0, 0, 0). The smooth flags of the polygons, the auto-smooth settings and the
  selection are the same after the second run as after the first. The location is the
  object's own \<^verbatim>\<open>location\<close> field, the one the script writes.
\<close>

theorem renormalizing_keeps_transform:
  assumes "i < length (objects s)"
  shows "\<exists>s1 s2.
      normalize_mesh h i s = (Inr (), s1) \<and> normalize_mesh h i s1 = (Inr (), s2)
    \<and> obj_scale (objects s1 ! i) = (1, 1, 1)
    \<and> rotation_euler (objects s1 ! i) = (0, 0, 0)
    \<and> location (objects s1 ! i) = (0, 0, 0)
    \<and> obj_scale (objects s2 ! i) = obj_scale (objects s1 ! i)
    \<and> rotation_euler (objects s2 ! i) = rotation_euler (objects s1 ! i)
    \<and> location (objects s2 ! i) = location (objects s1 ! i)
    \<and> polygons (objects s2 ! i) = polygons (objects s1 ! i)
    \<and> use_auto_smooth (objects s2 ! i) = use_auto_smooth (objects s1 ! i)
    \<and> auto_smooth_angle (objects s2 ! i) = auto_smooth_angle (objects s1 ! i)
    \<and> selected (objects s2 ! i) = selected (objects s1 ! i)"
proof -
  from normalize_mesh_result [OF assms, of h] obtain s1 where
    r1: "normalize_mesh h i s = (Inr (), s1)"
    and l1: "length (objects s1) = length (objects s)"
    and f1: "obj_scale (objects s1 ! i) = (1, 1, 1)" "rotation_euler (objects s1 ! i) = (0, 0, 0)"
      "location (objects s1 ! i) = (0, 0, 0)" "selected (objects s1 ! i) = False"
      "polygons (objects s1 ! i) = map (\<lambda>_. True) (polygons (objects s ! i))"
    and a1: "if polygons (objects s ! i) = []
        then use_auto_smooth (objects s1 ! i) = use_auto_smooth (objects s ! i)
           \<and> auto_smooth_angle (objects s1 ! i) = auto_smooth_angle (objects s ! i)
        else use_auto_smooth (objects s1 ! i) \<and> auto_smooth_angle (objects s1 ! i) = 1.0472"
    by blast
  from assms l1 have i1: "i < length (objects s1)" by simp
  from normalize_mesh_result [OF i1, of h] obtain s2 where
    r2: "normalize_mesh h i s1 = (Inr (), s2)"
    and f2: "obj_scale (objects s2 ! i) = (1, 1, 1)" "rotation_euler (objects s2 ! i) = (0, 0, 0)"
      "location (objects s2 ! i) = (0, 0, 0)" "selected (objects s2 ! i) = False"
      "polygons (objects s2 ! i) = map (\<lambda>_. True) (polygons (objects s1 ! i))"
    and a2: "if polygons (objects s1 ! i) = []
        then use_auto_smooth (objects s2 ! i) = use_auto_smooth (objects s1 ! i)
           \<and> auto_smooth_angle (objects s2 ! i) = auto_smooth_angle (objects s1 ! i)
        else use_auto_smooth (objects s2 ! i) \<and> auto_smooth_angle (objects s2 ! i) = 1.0472"
    by blast
  have p: "polygons (objects s2 ! i) = polygons (objects s1 ! i)"
    by (simp add: f2(5) f1(5))
  have e: "polygons (objects s1 ! i) = [] \<longleftrightarrow> polygons (objects s ! i) = []"
    by (simp add: f1(5))
  have sm: "use_auto_smooth (objects s2 ! i) = use_auto_smooth (objects s1 ! i)
    \<and> auto_smooth_angle (objects s2 ! i) = auto_smooth_angle (objects s1 ! i)"
    using a1 a2 e by (cases "polygons (objects s ! i) = []") simp_all
  show ?thesis
    apply (rule exI [of _ s1], rule exI [of _ s2])
    using r1 r2 f1 f2 p sm by simp
qed

theorem renormalizing_keeps_transform_witness:
  "\<exists>s1 s2.
      normalize_mesh host_ok 0 state_scene = (Inr (), s1)
    \<and> normalize_mesh host_ok 0 s1 = (Inr (), s2)
    \<and> obj_scale (objects state_scene ! 0) = (2, 2, 2)
    \<and> obj_scale (objects s1 ! 0) = (1, 1, 1)
    \<and> rotation_euler (objects s1 ! 0) = (0, 0, 0)
    \<and> location (objects s1 ! 0) = (0, 0, 0)
    \<and> obj_scale (objects s2 ! 0) = (1, 1, 1)
    \<and> rotation_euler (objects s2 ! 0) = (0, 0, 0)
    \<and> location (objects s2 ! 0) = (0, 0, 0)"
proof -
  have i: "0 < length (objects state_scene)" by (simp add: state_scene_def)
  have sc: "obj_scale (objects state_scene ! 0) = (2, 2, 2)" by (simp add: state_scene_def ring_def)
  from renormalizing_keeps_transform [OF i, of host_ok] obtain s1 s2 where
    r: "normalize_mesh host_ok 0 state_scene = (Inr (), s1)" "normalize_mesh host_ok 0 s1 = (Inr (), s2)"
    and f: "obj_scale (objects s1 ! 0) = (1, 1, 1)" "rotation_euler (objects s1 ! 0) = (0, 0, 0)"
      "location (objects s1 ! 0) = (0, 0, 0)"
      "obj_scale (objects s2 ! 0) = obj_scale (objects s1 ! 0)"
      "rotation_euler (objects s2 ! 0) = rotation_euler (objects s1 ! 0)"
      "location (objects s2 ! 0) = location (objects s1 ! 0)"
    by blast
  show ?thesis
    apply (rule exI [of _ s1], rule exI [of _ s2])
    using r f sc by simp
qed

text \<open>
  C2. The part of the claim that the code keeps is in the lemmas above: an asset whose
  file is missing costs one advisory line and the loop goes on (\<open>main_body_missing\<close>),
  and a failed write of the viewer page is caught and reported
  (\<open>generate_html_viewer_returns\<close>). A failure inside \<open>process_model\<close> is caught
  nowhere: it leaves \<open>main_body\<close> and the loop (\<open>main_body_raises\<close>,
  \<open>for_each_raises\<close>). With all three asset files present and a host on which the
  export fails, \<open>main\<close> ends with the export's error after the first asset: the
  second and third are never imported, and neither the documentation nor the archive
  is written.
\<close>

theorem export_failure_aborts_run:
  "fst (main host_export_fails state_assets) = Inl (RuntimeError ''bpy.ops.export_scene.gltf'')
   \<and> trace (snd (main host_export_fails state_assets)) =
       [Clear_scene, Import_gltf (path_join MODELS_DIR ''ring.glb''), Camera_add, Set_scene_camera,
        Setup_lighting, Render_settings, Export_gltf (path_join OUTPUT_DIR ''ring_final.glb'')]
   \<and> stdout (snd (main host_export_fails state_assets)) =
       [Downloading_HDRI ''https://dl.polyhaven.org/file/ph-assets/HDRIs/hdr/4k/studio_small_09_4k.hdr'',
        Processing (path_join MODELS_DIR ''ring.glb'')]"
  by (simp add: main_def models_def main_body_def process_model_def download_hdri_def
      urlretrieve_def setup_hdri_def nodes_new_def load_environment_eq panorama_loads_def
      clear_scene_def import_gltf_def setup_camera_def export_gltf_def camera_object_def
      host_export_fails_def host_ok_def state_assets_def state_empty_def
      run_defs paths Let_def)

end
